theory Spec2Isabelle
  imports Main "HOL-Library.Word" "HOL-Library.AList"
begin

unbundle bit_operations_syntax

chapter \<open>A shallow embedding of the netplay lobby and relay server\<close>

text \<open>
  The development follows the repository's layout: the types of package \<open>gameserver\<close>,
  the room supervisor (\<open>internal/gameServer/server.go\<close>, which the repository holds in
  three variants), the lobby (\<open>wsHandler\<close> and its helpers) and the C++ relay
  (\<open>server.cpp\<close>).

  Conventions.
  \<^item> A Go \<open>map[K]V\<close> is an association list without repeated keys; \<open>range\<close> visits it in
    list order. Go fixes no order, so every statement below is proved for every order.
    Lookup is \<open>map_of\<close>, \<open>m[k] = v\<close> is \<open>AList.update\<close>, \<open>delete(m, k)\<close> is
    \<open>AList.delete\<close>, \<open>len(m)\<close> is \<open>length\<close>.
  \<^item> A Go slice is a list; an index outside it is the panic \<open>IndexOutOfRange\<close>.
  \<^item> \<open>uint32\<close> and \<open>byte\<close> are \<open>32 word\<close> and \<open>8 word\<close>. Go's \<open>int\<close> holds ports, seat
    numbers and accept codes, none of which is near its bounds, and is modelled by
    \<open>int\<close>; the one narrowing conversion, \<open>uint32(buffer)\<close>, is \<open>word_of_int\<close>.
  \<^item> \<open>time.Time\<close> is the number of nanoseconds since the Unix epoch.
  \<^item> Mutexes and log lines have no counterpart: every handler is modelled as one
    atomic step, and logging does not change the state.
\<close>

section \<open>Package gameserver: types and constants\<close>

type_synonym byte = "8 word"
type_synonym uint32 = "32 word"

text \<open>A lobby connection \<open>*websocket.Conn\<close>: only pointer equality is ever used.\<close>
type_synonym conn = nat

text \<open>A \<open>*net.UDPAddr\<close>; \<open>None\<close> is the nil pointer.\<close>
type_synonym UDPAddr = "string option"

datatype panic = IndexOutOfRange | NilDereference

text \<open>
  A listener pointer (\<open>*net.TCPListener\<close>, \<open>*net.UDPConn\<close>): nil, a listening socket,
  or a socket that has been closed while the pointer is still held.
\<close>
datatype listener = NilPtr | Listening | Closed

record GameData =
  SyncValues :: "(uint32 \<times> byte list) list"
  PlayerAddresses :: "UDPAddr list"
  BufferSize :: "uint32 list"
  BufferHealth :: "uint32 list"
  Inputs :: "(uint32 \<times> uint32) list list"
  Plugin :: "(uint32 \<times> byte) list list"
  PendingInput :: "uint32 list"
  CountLag :: "uint32 list"
  PendingPlugin :: "byte list"
  PlayerAlive :: "bool list"
  LeadCount :: uint32
  Status :: byte

record Client =
  Socket :: conn
  IP :: string
  Number :: int

record Registration =
  RegID :: uint32
  RegPlugin :: byte
  Raw :: byte

record GameServer =
  StartTime :: int
  Players :: "(string \<times> Client) list"
  TCPListener :: listener
  UDPListener :: listener
  Registrations :: "(byte \<times> Registration) list"
  TCPFiles :: "(string \<times> byte list) list"
  CustomData :: "(byte \<times> byte list) list"
  GameName :: string
  Password :: string
  ClientSha :: string
  MD5 :: string
  Emulator :: string
  TCPSettings :: "byte list"
  GameData :: GameData
  Port :: int
  HasSettings :: bool
  Running :: bool
  Features :: "(string \<times> string) list"
  PlayerName :: string
  Buffer :: int
  LastActivity :: int
  LastPacketReceived :: int
  CreationTime :: int

definition DisconnectTimeoutS :: int where
  "DisconnectTimeoutS = 30"

definition uintLarger :: "uint32 \<Rightarrow> uint32 \<Rightarrow> bool" where
  "uintLarger v w = (w - v > 2147483647)"

text \<open>
  Modelled from the spec: the UDP relay engine of the Go server (\<open>processUDP\<close>) is not
  among the sources; only its types, its constants and \<open>uintLarger\<close> are. The spec's
  \<open>KeyInfoClient\<close> action, step 2, reads ``Update \<open>LeadCount\<close> if \<open>count\<close> is newer'',
  and its invariant ``updated only when a newly observed counter is newer than the
  current lead''. \<open>keyInfoClientLead count lead\<close> is the lead after a \<open>KeyInfoClient\<close>
  at \<open>count\<close>, with \<open>uintLarger\<close> as the comparison.
\<close>
definition keyInfoClientLead :: "uint32 \<Rightarrow> uint32 \<Rightarrow> uint32" where
  "keyInfoClientLead count lead = (if uintLarger count lead then count else lead)"

section \<open>The room supervisor (server.go, three variants)\<close>

text \<open>
  The repository holds \<open>internal/gameServer/server.go\<close> three times. The variants are
  numbered in the order of the file; a definition ending in \<open>_v1\<close>, \<open>_v2\<close> or \<open>_v3\<close>
  embeds the function of that variant.
\<close>

subsection \<open>CloseServers\<close>

text \<open>
  Variant 1 checks each listener for nil, closes it and drops the pointer. \<open>Close\<close> on
  a socket that is already closed only returns an error, which is logged or ignored.
\<close>
definition CloseServers_v1 :: "GameServer \<Rightarrow> GameServer" where
  "CloseServers_v1 g =
     (let g1 = (if UDPListener g \<noteq> NilPtr then g\<lparr>UDPListener := NilPtr\<rparr> else g);
          g2 = (if TCPListener g1 \<noteq> NilPtr then g1\<lparr>TCPListener := NilPtr\<rparr> else g1)
      in g2\<lparr>Running := False\<rparr>)"

text \<open>
  Variants 2 and 3 call \<open>Close\<close> without the check and keep the pointers.
  \<open>UDPConn.Close\<close> is promoted from the embedded \<open>conn\<close>, so calling it through a nil
  \<open>*UDPConn\<close> dereferences nil; \<open>TCPListener.Close\<close> tests its receiver and returns an
  error for nil.
\<close>
definition closeListener :: "listener \<Rightarrow> listener" where
  "closeListener l = (case l of NilPtr \<Rightarrow> NilPtr | Listening \<Rightarrow> Closed | Closed \<Rightarrow> Closed)"

definition CloseServers_v2 :: "GameServer \<Rightarrow> panic + GameServer" where
  "CloseServers_v2 g =
     (if UDPListener g = NilPtr then Inl NilDereference
      else Inr (g\<lparr>UDPListener := closeListener (UDPListener g),
                  TCPListener := closeListener (TCPListener g),
                  Running := False\<rparr>))"

definition CloseServers_v3 :: "GameServer \<Rightarrow> panic + GameServer" where
  "CloseServers_v3 g =
     (if UDPListener g = NilPtr then Inl NilDereference
      else Inr (g\<lparr>UDPListener := closeListener (UDPListener g),
                  TCPListener := closeListener (TCPListener g),
                  Running := False\<rparr>))"

subsection \<open>ManagePlayers\<close>

text \<open>
  \<open>ManagePlayers\<close> sleeps \<open>DisconnectTimeoutS\<close> seconds and then loops forever; other
  goroutines change \<open>PlayerAlive\<close> and \<open>Registrations\<close> between two passes, so the unit
  that is modelled is one pass of the loop body on the state it finds. A pass ends
  with what the loop does next.
\<close>
datatype next_step = Return | SleepThenRepeat int | Repeat

text \<open>\<open>g.GameData.PlayerAlive[i] = false\<close>, the last statement of the inner loop.\<close>
definition clearAlive :: "byte \<Rightarrow> bool \<times> GameServer \<Rightarrow> panic + bool \<times> GameServer" where
  "clearAlive i = (\<lambda>(playersActive, g).
     if unat i < length (PlayerAlive (GameData g))
     then Inr (playersActive,
               g\<lparr>GameData := (GameData g)\<lparr>PlayerAlive := (PlayerAlive (GameData g))[unat i := False]\<rparr>\<rparr>)
     else Inl IndexOutOfRange)"

text \<open>
  The body of \<open>for i = 0; i < 4; i++\<close> in variant 1. The two log calls read
  \<open>BufferSize[i]\<close>, \<open>BufferHealth[i]\<close>, \<open>CountLag[i]\<close> and \<open>PlayerAddresses[i]\<close>, which
  panic outside the slices. \<open>0x1 << (i + 1)\<close> is a \<open>byte\<close> shift.
\<close>
definition sweepSlot_v1 :: "byte \<Rightarrow> bool \<times> GameServer \<Rightarrow> panic + bool \<times> GameServer" where
  "sweepSlot_v1 i = (\<lambda>(playersActive, g).
     let d = GameData g; n = unat i in
     case map_of (Registrations g) i of
       None \<Rightarrow> clearAlive i (playersActive, g)
     | Some r \<Rightarrow>
         if \<not> n < length (PlayerAlive d) then Inl IndexOutOfRange
         else if PlayerAlive d ! n then
           (if n < length (BufferSize d) \<and> n < length (BufferHealth d)
               \<and> n < length (CountLag d) \<and> n < length (PlayerAddresses d)
            then clearAlive i (True, g)
            else Inl IndexOutOfRange)
         else
           (if n < length (PlayerAddresses d)
            then clearAlive i (playersActive,
                   g\<lparr>GameData := d\<lparr>Status := Status d OR push_bit (unat (i + 1)) 1\<rparr>,
                     Registrations := AList.delete i (Registrations g)\<rparr>)
            else Inl IndexOutOfRange))"

text \<open>The same body in variants 2 and 3: no log call and no write to \<open>Status\<close>.\<close>
definition sweepSlot_v2 :: "byte \<Rightarrow> bool \<times> GameServer \<Rightarrow> panic + bool \<times> GameServer" where
  "sweepSlot_v2 i = (\<lambda>(playersActive, g).
     let d = GameData g; n = unat i in
     case map_of (Registrations g) i of
       None \<Rightarrow> clearAlive i (playersActive, g)
     | Some r \<Rightarrow>
         if \<not> n < length (PlayerAlive d) then Inl IndexOutOfRange
         else if PlayerAlive d ! n then clearAlive i (True, g)
         else clearAlive i (playersActive,
                g\<lparr>Registrations := AList.delete i (Registrations g)\<rparr>))"

definition sweepSlot_v3 :: "byte \<Rightarrow> bool \<times> GameServer \<Rightarrow> panic + bool \<times> GameServer" where
  "sweepSlot_v3 i = (\<lambda>(playersActive, g).
     let d = GameData g; n = unat i in
     case map_of (Registrations g) i of
       None \<Rightarrow> clearAlive i (playersActive, g)
     | Some r \<Rightarrow>
         if \<not> n < length (PlayerAlive d) then Inl IndexOutOfRange
         else if PlayerAlive d ! n then clearAlive i (True, g)
         else clearAlive i (playersActive,
                g\<lparr>Registrations := AList.delete i (Registrations g)\<rparr>))"

text \<open>A \<open>for\<close> loop over the given slots that stops at the first panic.\<close>
fun forSlots :: "(byte \<Rightarrow> 's \<Rightarrow> panic + 's) \<Rightarrow> byte list \<Rightarrow> 's \<Rightarrow> panic + 's" where
  "forSlots body [] s = Inr s"
| "forSlots body (i # slots) s =
     (case body i s of Inl p \<Rightarrow> Inl p | Inr s' \<Rightarrow> forSlots body slots s')"

text \<open>
  One pass of the loop of \<open>ManagePlayers\<close>. Variants 1 and 3 sleep before the next
  pass; variant 2 stamps \<open>LastActivity\<close> with the clock (\<open>now\<close>) and starts the next
  pass at once.
\<close>
definition ManagePlayers_v1 :: "GameServer \<Rightarrow> panic + GameServer \<times> next_step" where
  "ManagePlayers_v1 g =
     (case forSlots sweepSlot_v1 [0, 1, 2, 3] (False, g) of
        Inl p \<Rightarrow> Inl p
      | Inr (playersActive, g') \<Rightarrow>
          if \<not> playersActive then Inr ((CloseServers_v1 g')\<lparr>Running := False\<rparr>, Return)
          else Inr (g', SleepThenRepeat DisconnectTimeoutS))"

definition ManagePlayers_v2 :: "int \<Rightarrow> GameServer \<Rightarrow> panic + GameServer \<times> next_step" where
  "ManagePlayers_v2 now g =
     (case forSlots sweepSlot_v2 [0, 1, 2, 3] (False, g) of
        Inl p \<Rightarrow> Inl p
      | Inr (playersActive, g') \<Rightarrow>
          if \<not> playersActive
          then (case CloseServers_v2 g' of
                  Inl p \<Rightarrow> Inl p
                | Inr g'' \<Rightarrow> Inr (g''\<lparr>Running := False\<rparr>, Return))
          else Inr (g'\<lparr>LastActivity := now\<rparr>, Repeat))"

definition ManagePlayers_v3 :: "GameServer \<Rightarrow> panic + GameServer \<times> next_step" where
  "ManagePlayers_v3 g =
     (case forSlots sweepSlot_v3 [0, 1, 2, 3] (False, g) of
        Inl p \<Rightarrow> Inl p
      | Inr (playersActive, g') \<Rightarrow>
          if \<not> playersActive
          then (case CloseServers_v3 g' of
                  Inl p \<Rightarrow> Inl p
                | Inr g'' \<Rightarrow> Inr (g''\<lparr>Running := False\<rparr>, Return))
          else Inr (g', SleepThenRepeat DisconnectTimeoutS))"

subsection \<open>ChangeBuffer\<close>

text \<open>
  \<open>for i := range g.GameData.BufferSize\<close> visits the indices of \<open>BufferSize\<close>. Variant 1
  writes \<open>BufferSize[i] = 0\<close> and \<open>BufferHealth[i] = 0 + weightedBuffer\<close>; the second write
  panics when \<open>BufferHealth\<close> is the shorter slice.
\<close>
fun changeBufferLoop_v1 :: "nat list \<Rightarrow> uint32 \<Rightarrow> GameData \<Rightarrow> panic + GameData" where
  "changeBufferLoop_v1 [] weightedBuffer d = Inr d"
| "changeBufferLoop_v1 (i # rest) weightedBuffer d =
     (let d1 = d\<lparr>BufferSize := (BufferSize d)[i := 0]\<rparr> in
      if i < length (BufferHealth d1)
      then changeBufferLoop_v1 rest weightedBuffer
             (d1\<lparr>BufferHealth := (BufferHealth d1)[i := 0 + weightedBuffer]\<rparr>)
      else Inl IndexOutOfRange)"

definition ChangeBuffer_v1 :: "int \<Rightarrow> GameServer \<Rightarrow> panic + GameServer" where
  "ChangeBuffer_v1 buffer g =
     (let g1 = g\<lparr>Buffer := buffer\<rparr>;
          weightedBuffer = (word_of_int buffer :: uint32)
      in case changeBufferLoop_v1 [0 ..< length (BufferSize (GameData g1))] weightedBuffer (GameData g1) of
           Inl p \<Rightarrow> Inl p
         | Inr d \<Rightarrow> Inr (g1\<lparr>GameData := d\<rparr>))"

text \<open>Variants 2 and 3 write \<open>BufferSize[i] = weightedBuffer\<close> and nothing else.\<close>
fun changeBufferLoop_v2 :: "nat list \<Rightarrow> uint32 \<Rightarrow> GameData \<Rightarrow> GameData" where
  "changeBufferLoop_v2 [] weightedBuffer d = d"
| "changeBufferLoop_v2 (i # rest) weightedBuffer d =
     changeBufferLoop_v2 rest weightedBuffer (d\<lparr>BufferSize := (BufferSize d)[i := weightedBuffer]\<rparr>)"

definition ChangeBuffer_v2 :: "int \<Rightarrow> GameServer \<Rightarrow> GameServer" where
  "ChangeBuffer_v2 buffer g =
     (let g1 = g\<lparr>Buffer := buffer\<rparr>;
          weightedBuffer = (word_of_int buffer :: uint32)
      in g1\<lparr>GameData :=
             changeBufferLoop_v2 [0 ..< length (BufferSize (GameData g1))] weightedBuffer (GameData g1)\<rparr>)"

definition ChangeBuffer_v3 :: "int \<Rightarrow> GameServer \<Rightarrow> GameServer" where
  "ChangeBuffer_v3 buffer g =
     (let g1 = g\<lparr>Buffer := buffer\<rparr>;
          weightedBuffer = (word_of_int buffer :: uint32)
      in g1\<lparr>GameData :=
             changeBufferLoop_v2 [0 ..< length (BufferSize (GameData g1))] weightedBuffer (GameData g1)\<rparr>)"

subsection \<open>Vocabulary for the sweep, and an example room\<close>

definition registered :: "GameServer \<Rightarrow> byte \<Rightarrow> bool" where
  "registered g i = (map_of (Registrations g) i \<noteq> None)"

definition alive :: "GameServer \<Rightarrow> byte \<Rightarrow> bool" where
  "alive g i = (PlayerAlive (GameData g) ! unat i)"

text \<open>A registered slot whose \<open>PlayerAlive\<close> flag is false when the sweep reaches it.\<close>
definition wentSilent :: "GameServer \<Rightarrow> byte \<Rightarrow> bool" where
  "wentSilent g i = (registered g i \<and> \<not> alive g i)"

text \<open>
  The slices the sweep indexes have (at least) the four slots of the spec's data
  model; \<open>createUDPServer\<close>, which allocates them, is not among the sources.
\<close>
definition fourSlotRoom :: "GameServer \<Rightarrow> bool" where
  "fourSlotRoom g =
     (let d = GameData g
      in 4 \<le> length (PlayerAlive d) \<and> 4 \<le> length (BufferSize d) \<and> 4 \<le> length (BufferHealth d)
         \<and> 4 \<le> length (CountLag d) \<and> 4 \<le> length (PlayerAddresses d))"

text \<open>
  A running room on port 45001 with slots 0 and 1 registered, of which only slot 0 has
  been heard from since the last sweep.
\<close>
definition fourSlots :: GameData where
  "fourSlots =
     \<lparr>SyncValues = [], PlayerAddresses = [None, None, None, None], BufferSize = [1, 1, 1, 1],
      BufferHealth = [7, 7, 7, 7], Inputs = [[], [], [], []], Plugin = [[], [], [], []],
      PendingInput = [0, 0, 0, 0], CountLag = [0, 0, 0, 0], PendingPlugin = [0, 0, 0, 0],
      PlayerAlive = [True, False, False, False], LeadCount = 0, Status = 0\<rparr>"

definition exampleRoom :: GameServer where
  "exampleRoom =
     \<lparr>StartTime = 0, Players = [], TCPListener = Listening, UDPListener = Listening,
      Registrations = [(0, \<lparr>RegID = 10, RegPlugin = 2, Raw = 0\<rparr>),
                       (1, \<lparr>RegID = 11, RegPlugin = 2, Raw = 0\<rparr>)],
      TCPFiles = [], CustomData = [], GameName = ''game'', Password = [], ClientSha = ''1111'',
      MD5 = ''deadbeef'', Emulator = ''m64p'', TCPSettings = [], GameData = fourSlots,
      Port = 45001, HasSettings = False, Running = True, Features = [], PlayerName = ''pA'',
      Buffer = 2, LastActivity = 0, LastPacketReceived = 0, CreationTime = 0\<rparr>"

section \<open>The lobby: messages, registry and what the sources leave out\<close>

definition Accepted :: int where "Accepted = 0"
definition BadPassword :: int where "BadPassword = 1"
definition MismatchVersion :: int where "MismatchVersion = 2"
definition RoomFull :: int where "RoomFull = 3"
definition DuplicateName :: int where "DuplicateName = 4"
definition RoomDeleted :: int where "RoomDeleted = 5"
definition BadName :: int where "BadName = 6"
definition BadEmulator :: int where "BadEmulator = 7"
definition BadAuth :: int where "BadAuth = 8"
definition Other :: int where "Other = 9"

definition NetplayAPIVersion :: string where
  "NetplayAPIVersion = ''MPN-4''"

record SocketMessage =
  Features :: "(string \<times> string) list"
  GameName :: string
  Protected :: bool
  Password :: string
  Message :: string
  ClientSha :: string
  Emulator :: string
  PlayerName :: string
  RoomName :: string
  MD5 :: string
  AuthTime :: string
  Type :: string
  Auth :: string
  PlayerNames :: "string list"
  Accept :: int
  NetplayVersion :: string
  Port :: int

text \<open>\<open>var sendMessage SocketMessage\<close>: every field has its zero value.\<close>
definition zeroMessage :: SocketMessage where
  "zeroMessage =
     \<lparr>Features = [], GameName = [], Protected = False, Password = [], Message = [],
      ClientSha = [], Emulator = [], PlayerName = [], RoomName = [], MD5 = [],
      AuthTime = [], Type = [], Auth = [], PlayerNames = [], Accept = 0,
      NetplayVersion = [], Port = 0\<rparr>"

record LobbyServer =
  GameServers :: "(string \<times> GameServer) list"
  Name :: string
  Motd :: string
  BasePort :: int
  MaxGames :: int
  DisableBroadcast :: bool
  EnableAuth :: bool
  ActivePorts :: "int list"

text \<open>
  What a handler does to the outside: a JSON frame written to a connection
  (\<open>s.sendData\<close>), a goroutine it starts, the Discord announcement.
\<close>
datatype event =
    Send conn SocketMessage
  | GoMonitorActivity
  | GoWatchGameServer string
  | AnnounceDiscord

text \<open>
  The library and operating-system functions the lobby calls, and the two methods of
  \<open>GameServer\<close> whose file is not among the sources, are parameters:
  \<^item> \<open>Getenv\<close>, \<open>Sum256\<close> (the SHA-256 digest of a byte string) and \<open>ToUpper\<close> are
    \<open>os.Getenv\<close>, \<open>crypto/sha256\<close> and \<open>strings.ToUpper\<close>;
  \<^item> \<open>RemoteIP ws\<close> is the host part \<open>net.SplitHostPort\<close> returns for the peer of \<open>ws\<close>;
  \<^item> \<open>floatOverflow\<close> is the \<open>int64\<close> a conversion from a \<open>float64\<close> outside the
    \<open>int64\<close> range yields, which Go leaves to the implementation;
  \<^item> \<open>createTCPServer basePort maxGames g\<close> returns the port it bound (\<open>0\<close> when it
    bound none) and the room with its TCP listener; \<open>createUDPServer g\<close> returns
    whether it failed and the room with its UDP listener.
\<close>
record platform =
  Getenv :: "string \<Rightarrow> string"
  Sum256 :: "string \<Rightarrow> byte list"
  ToUpper :: "string \<Rightarrow> string"
  RemoteIP :: "conn \<Rightarrow> string"
  floatOverflow :: int
  createTCPServer :: "int \<Rightarrow> int \<Rightarrow> GameServer \<Rightarrow> int \<times> GameServer"
  createUDPServer :: "GameServer \<Rightarrow> bool \<times> GameServer"

subsection \<open>validateAuth\<close>

text \<open>
  \<open>strconv.ParseInt(s, 10, 64)\<close>: an optional sign, then one or more decimal digits;
  a value outside \<open>int64\<close> is a range error. The caller treats every error alike.
\<close>
definition isDigit :: "char \<Rightarrow> bool" where
  "isDigit c = (48 \<le> (of_char c :: nat) \<and> (of_char c :: nat) \<le> 57)"

definition decimal :: "string \<Rightarrow> int" where
  "decimal ds = foldl (\<lambda>n c. n * 10 + (int (of_char c) - 48)) 0 ds"

definition ParseInt :: "string \<Rightarrow> int option" where
  "ParseInt s =
     (case s of
        [] \<Rightarrow> None
      | c # rest \<Rightarrow>
          let neg = (c = CHR ''-'');
              ds = (if c = CHR ''+'' \<or> c = CHR ''-'' then rest else s)
          in if ds = [] \<or> \<not> list_all isDigit ds then None
             else let un = decimal ds
                  in if \<not> neg \<and> 2 ^ 63 \<le> un then None
                     else if neg \<and> 2 ^ 63 < un then None
                     else Some (if neg then - un else un))"

text \<open>\<open>time.UnixMilli\<close>, as nanoseconds since the epoch.\<close>
definition UnixMilli :: "int \<Rightarrow> int" where
  "UnixMilli ms = ms * 1000000"

text \<open>\<open>Time.Sub\<close>: the difference as a \<open>Duration\<close> (an \<open>int64\<close> of nanoseconds), saturated.\<close>
definition Sub :: "int \<Rightarrow> int \<Rightarrow> int" where
  "Sub t u =
     (let d = t - u
      in if d < - (2 ^ 63) then - (2 ^ 63) else if 2 ^ 63 - 1 < d then 2 ^ 63 - 1 else d)"

text \<open>
  \<open>float64(d)\<close> for an \<open>int64\<close>: the nearest value with a 53-bit significand, ties to
  even. The result is an integer again, so it is computed in \<open>int\<close>: \<open>roundShift\<close>
  counts the low bits that do not fit.
\<close>
fun roundShift :: "nat \<Rightarrow> int \<Rightarrow> nat" where
  "roundShift 0 a = 0"
| "roundShift (Suc fuel) a = (if a < 2 ^ 53 then 0 else Suc (roundShift fuel (a div 2)))"

definition float64 :: "int \<Rightarrow> int" where
  "float64 d =
     (let a = \<bar>d\<bar>;
          e = roundShift 64 a;
          q = a div 2 ^ e;
          r = a mod 2 ^ e;
          q' = (if 2 ^ e < 2 * r \<or> (2 * r = 2 ^ e \<and> odd q) then q + 1 else q)
      in sgn d * (q' * 2 ^ e))"

text \<open>\<open>time.Duration(f)\<close> for an integral \<open>float64\<close>.\<close>
definition durationOfFloat :: "platform \<Rightarrow> int \<Rightarrow> int" where
  "durationOfFloat P f = (if - (2 ^ 63) \<le> f \<and> f < 2 ^ 63 then f else floatOverflow P)"

definition maxAllowableDifference :: int where
  "maxAllowableDifference = 15 * 60 * 1000000000"

text \<open>\<open>fmt.Sprintf("%x", bytes)\<close>: two lower-case hexadecimal digits for each byte.\<close>
definition hexDigit :: "nat \<Rightarrow> char" where
  "hexDigit n = ''0123456789abcdef'' ! (n mod 16)"

definition hexString :: "byte list \<Rightarrow> string" where
  "hexString bs = concat (map (\<lambda>b. [hexDigit (unat b div 16), hexDigit (unat b mod 16)]) bs)"

text \<open>\<open>now\<close> is \<open>time.Now().UTC()\<close>.\<close>
definition validateAuth :: "platform \<Rightarrow> int \<Rightarrow> LobbyServer \<Rightarrow> SocketMessage \<Rightarrow> bool" where
  "validateAuth P now s receivedMessage =
     (if \<not> EnableAuth s then True
      else case ParseInt (AuthTime receivedMessage) of
        None \<Rightarrow> False
      | Some timeAsInt \<Rightarrow>
          let receivedTime = UnixMilli timeAsInt;
              timeDifference = Sub now receivedTime;
              absTimeDifference = durationOfFloat P \<bar>float64 timeDifference\<bar>
          in if maxAllowableDifference < absTimeDifference then False
             else let authCode = Getenv P (ToUpper P (SocketMessage.Emulator receivedMessage) @ ''_AUTH'')
                  in if authCode = [] then False
                     else Auth receivedMessage
                          = hexString (Sum256 P (AuthTime receivedMessage @ authCode)))"

subsection \<open>Helpers of the lobby\<close>

text \<open>
  \<open>findGameServer\<close> returns the first room, in the order \<open>range\<close> visits the registry,
  whose port is the requested one, with its name; \<open>None\<close> stands for \<open>("", nil)\<close>.
\<close>
fun findGameServer :: "(string \<times> GameServer) list \<Rightarrow> int \<Rightarrow> (string \<times> GameServer) option" where
  "findGameServer [] port = None"
| "findGameServer ((i, v) # rest) port =
     (if GameServer.Port v = port then Some (i, v) else findGameServer rest port)"

text \<open>
  The registry maps a name to a pointer, and the handlers write through the pointer
  \<open>findGameServer\<close> gave them: \<open>storeGameServer\<close> puts the changed room back under its
  name.
\<close>
definition storeGameServer :: "string \<Rightarrow> GameServer \<Rightarrow> LobbyServer \<Rightarrow> LobbyServer" where
  "storeGameServer roomName g s = s\<lparr>GameServers := AList.update roomName g (GameServers s)\<rparr>"

text \<open>
  \<open>updatePlayers\<close>: \<open>PlayerNames\<close> is \<open>make([]string, 4)\<close>, and
  \<open>PlayerNames[v.Number] = i\<close> panics for a number outside it. The list is then sent to
  every player of the room.
\<close>
fun playerNames :: "(string \<times> Client) list \<Rightarrow> string list \<Rightarrow> panic + string list" where
  "playerNames [] names = Inr names"
| "playerNames ((i, v) # rest) names =
     (if 0 \<le> Number v \<and> Number v < int (length names)
      then playerNames rest (names[nat (Number v) := i])
      else Inl IndexOutOfRange)"

definition updatePlayers :: "GameServer \<Rightarrow> panic + event list" where
  "updatePlayers g =
     (case playerNames (Players g) (replicate 4 []) of
        Inl p \<Rightarrow> Inl p
      | Inr names \<Rightarrow>
          Inr (map (\<lambda>(i, v). Send (Socket v)
                     (zeroMessage\<lparr>PlayerNames := names, Type := ''reply_players''\<rparr>))
                 (Players g)))"

text \<open>\<open>removePort\<close> drops the first occurrence of the port from \<open>ActivePorts\<close>.\<close>
definition removePort :: "int \<Rightarrow> LobbyServer \<Rightarrow> LobbyServer" where
  "removePort port s = s\<lparr>ActivePorts := remove1 port (ActivePorts s)\<rparr>"

text \<open>\<open>gameserver.GameServer{}\<close>; the zero \<open>time.Time\<close> is 1 January of year 1.\<close>
definition zeroTime :: int where
  "zeroTime = - 62135596800000000000"

definition zeroGameData :: GameData where
  "zeroGameData =
     \<lparr>SyncValues = [], PlayerAddresses = [], BufferSize = [], BufferHealth = [],
      Inputs = [], Plugin = [], PendingInput = [], CountLag = [], PendingPlugin = [],
      PlayerAlive = [], LeadCount = 0, Status = 0\<rparr>"

definition zeroGameServer :: GameServer where
  "zeroGameServer =
     \<lparr>StartTime = zeroTime, Players = [], TCPListener = NilPtr, UDPListener = NilPtr,
      Registrations = [], TCPFiles = [], CustomData = [], GameName = [], Password = [],
      ClientSha = [], MD5 = [], Emulator = [], TCPSettings = [], GameData = zeroGameData,
      Port = 0, HasSettings = False, Running = False, Features = [], PlayerName = [],
      Buffer = 0, LastActivity = zeroTime, LastPacketReceived = zeroTime,
      CreationTime = zeroTime\<rparr>"

text \<open>
  \<open>CreateNetworkServers\<close> (variants 1 and 2; variant 3 has neither the two time stamps
  nor the monitor). Its name arguments only label the logger.
\<close>
definition CreateNetworkServers ::
  "platform \<Rightarrow> int \<Rightarrow> int \<Rightarrow> int \<Rightarrow> GameServer \<Rightarrow> int \<times> GameServer \<times> event list" where
  "CreateNetworkServers P now basePort maxGames g =
     (case createTCPServer P basePort maxGames g of
        (port, g1) \<Rightarrow>
          if port = 0 then (port, g1, [])
          else (case createUDPServer P g1 of
                  (failed, g2) \<Rightarrow>
                    if failed
                    then (0, g2\<lparr>TCPListener := closeListener (TCPListener g2)\<rparr>, [])
                    else (port, g2\<lparr>LastActivity := now, LastPacketReceived := now\<rparr>,
                          [GoMonitorActivity])))"

subsection \<open>The cases of wsHandler\<close>

text \<open>
  \<open>wsHandler\<close> keeps the flag \<open>authenticated\<close> for its connection \<open>ws\<close>, and stamps
  \<open>LastActivity\<close> of a room of \<open>ws\<close> before it dispatches a message. Each case of its
  \<open>switch\<close> is a function from the lobby and the flag to the new lobby, the new flag
  and the events of the case, in order.
\<close>

definition createRoom ::
  "platform \<Rightarrow> int \<Rightarrow> conn \<Rightarrow> SocketMessage \<Rightarrow> LobbyServer \<times> bool
     \<Rightarrow> (LobbyServer \<times> bool) \<times> event list" where
  "createRoom P now ws receivedMessage = (\<lambda>(s, authenticated).
     let sendMessage = zeroMessage\<lparr>Type := ''reply_create_room''\<rparr>;
         exists = (map_of (GameServers s) (RoomName receivedMessage) \<noteq> None)
     in
     if exists then
       ((s, authenticated),
        [Send ws (sendMessage\<lparr>Accept := DuplicateName,
                               Message := ''Room with this name already exists''\<rparr>)])
     else if NetplayVersion receivedMessage \<noteq> NetplayAPIVersion then
       ((s, authenticated),
        [Send ws (sendMessage\<lparr>Accept := MismatchVersion,
           Message := ''Client and server not at same API version. Please update your emulator''\<rparr>)])
     else if RoomName receivedMessage = [] then
       ((s, authenticated),
        [Send ws (sendMessage\<lparr>Accept := BadName, Message := ''Room name cannot be empty''\<rparr>)])
     else if SocketMessage.PlayerName receivedMessage = [] then
       ((s, authenticated),
        [Send ws (sendMessage\<lparr>Accept := BadName, Message := ''Player name cannot be empty''\<rparr>)])
     else if SocketMessage.Emulator receivedMessage = [] then
       ((s, authenticated),
        [Send ws (sendMessage\<lparr>Accept := BadEmulator, Message := ''Emulator name cannot be empty''\<rparr>)])
     else if \<not> validateAuth P now s receivedMessage then
       ((s, authenticated),
        [Send ws (sendMessage\<lparr>Accept := BadAuth, Message := ''Bad authentication code''\<rparr>)])
     else
       (case CreateNetworkServers P now (BasePort s) (MaxGames s) zeroGameServer of
          (port, g0, started) \<Rightarrow>
            let sendMessage1 = sendMessage\<lparr>SocketMessage.Port := port\<rparr> in
            if port = 0 then
              ((s, True),
               started @ [Send ws (sendMessage1\<lparr>Accept := Other, Message := ''Failed to create room''\<rparr>)])
            else
              let g = g0\<lparr>GameServer.Password := SocketMessage.Password receivedMessage,
                         GameServer.GameName := SocketMessage.GameName receivedMessage,
                         GameServer.MD5 := SocketMessage.MD5 receivedMessage,
                         GameServer.ClientSha := SocketMessage.ClientSha receivedMessage,
                         GameServer.Emulator := SocketMessage.Emulator receivedMessage,
                         Players := [(SocketMessage.PlayerName receivedMessage,
                                      \<lparr>Socket = ws, IP = RemoteIP P ws, Number = 0\<rparr>)],
                         GameServer.Features := SocketMessage.Features receivedMessage,
                         GameServer.PlayerName := SocketMessage.PlayerName receivedMessage\<rparr>
              in ((storeGameServer (RoomName receivedMessage) g s, True),
                  started @
                  [AnnounceDiscord,
                   Send ws (sendMessage1\<lparr>Accept := Accepted,
                              RoomName := RoomName receivedMessage,
                              SocketMessage.GameName := GameServer.GameName g,
                              SocketMessage.PlayerName := SocketMessage.PlayerName receivedMessage,
                              SocketMessage.Features := SocketMessage.Features receivedMessage\<rparr>)])))"

text \<open>
  \<open>request_get_rooms\<close>. A request that fails a check is answered by nothing: the only
  \<open>sendData\<close> of the case is inside the loop over the rooms. \<open>sendMessage\<close> is one
  variable that the loop overwrites for each room it lists.
\<close>
fun getRoomsLoop ::
  "conn \<Rightarrow> SocketMessage \<Rightarrow> (string \<times> GameServer) list \<Rightarrow> SocketMessage \<Rightarrow> event list" where
  "getRoomsLoop ws receivedMessage [] sendMessage = []"
| "getRoomsLoop ws receivedMessage ((i, v) # rest) sendMessage =
     (if Running v then getRoomsLoop ws receivedMessage rest sendMessage
      else if SocketMessage.Emulator receivedMessage \<noteq> GameServer.Emulator v
      then getRoomsLoop ws receivedMessage rest sendMessage
      else
        let sendMessage1 =
              sendMessage\<lparr>Protected := (GameServer.Password v \<noteq> []),
                          Accept := Accepted,
                          RoomName := i,
                          SocketMessage.MD5 := GameServer.MD5 v,
                          SocketMessage.Port := GameServer.Port v,
                          SocketMessage.GameName := GameServer.GameName v,
                          SocketMessage.Features := GameServer.Features v,
                          SocketMessage.PlayerName := GameServer.PlayerName v\<rparr>
        in Send ws sendMessage1 # getRoomsLoop ws receivedMessage rest sendMessage1)"

definition getRooms ::
  "platform \<Rightarrow> int \<Rightarrow> conn \<Rightarrow> SocketMessage \<Rightarrow> LobbyServer \<times> bool
     \<Rightarrow> (LobbyServer \<times> bool) \<times> event list" where
  "getRooms P now ws receivedMessage = (\<lambda>(s, authenticated).
     let sendMessage = zeroMessage\<lparr>Type := ''reply_get_rooms''\<rparr> in
     if NetplayVersion receivedMessage \<noteq> NetplayAPIVersion then ((s, authenticated), [])
     else if SocketMessage.Emulator receivedMessage = [] then ((s, authenticated), [])
     else if \<not> validateAuth P now s receivedMessage then ((s, authenticated), [])
     else ((s, True), getRoomsLoop ws receivedMessage (GameServers s) sendMessage))"

text \<open>
  \<open>request_join_room\<close>. The seat is the first \<open>number\<close> of \<open>0, 1, 2, 3\<close> that no player of
  the room has; the loop leaves \<open>number = 4\<close> when there is none.
\<close>
definition freeNumber :: "(string \<times> Client) list \<Rightarrow> int" where
  "freeNumber players =
     (case find (\<lambda>number. list_all (\<lambda>(k, v). Number v \<noteq> number) players) [0, 1, 2, 3] of
        Some number \<Rightarrow> number
      | None \<Rightarrow> 4)"

definition joinRoom ::
  "platform \<Rightarrow> conn \<Rightarrow> SocketMessage \<Rightarrow> LobbyServer \<times> bool
     \<Rightarrow> (LobbyServer \<times> bool) \<times> event list" where
  "joinRoom P ws receivedMessage = (\<lambda>(s, authenticated).
     if \<not> authenticated then ((s, authenticated), [])
     else
       let sendMessage = zeroMessage\<lparr>Type := ''reply_join_room''\<rparr> in
       case findGameServer (GameServers s) (SocketMessage.Port receivedMessage) of
         None \<Rightarrow>
           ((s, authenticated),
            [Send ws (sendMessage\<lparr>Accept := RoomDeleted, Message := ''room has been deleted''\<rparr>)])
       | Some (roomName, g) \<Rightarrow>
           let duplicateName =
                 list_ex (\<lambda>(i, v). SocketMessage.PlayerName receivedMessage = i) (Players g)
           in
           if GameServer.Password g \<noteq> []
              \<and> GameServer.Password g \<noteq> SocketMessage.Password receivedMessage then
             ((s, authenticated),
              [Send ws (sendMessage\<lparr>Accept := BadPassword, Message := ''Incorrect password''\<rparr>)])
           else if GameServer.ClientSha g \<noteq> SocketMessage.ClientSha receivedMessage then
             ((s, authenticated),
              [Send ws (sendMessage\<lparr>Accept := MismatchVersion,
                                     Message := ''Client versions do not match''\<rparr>)])
           else if GameServer.MD5 g \<noteq> SocketMessage.MD5 receivedMessage then
             ((s, authenticated),
              [Send ws (sendMessage\<lparr>Accept := MismatchVersion,
                                     Message := ''ROM does not match room ROM''\<rparr>)])
           else if 4 \<le> length (Players g) then
             ((s, authenticated),
              [Send ws (sendMessage\<lparr>Accept := RoomFull, Message := ''Room is full''\<rparr>)])
           else if SocketMessage.PlayerName receivedMessage = [] then
             ((s, authenticated),
              [Send ws (sendMessage\<lparr>Accept := BadName, Message := ''Player name cannot be empty''\<rparr>)])
           else if duplicateName then
             ((s, authenticated),
              [Send ws (sendMessage\<lparr>Accept := DuplicateName,
                                     Message := ''Player name already in use''\<rparr>)])
           else
             let number = freeNumber (Players g);
                 g1 = g\<lparr>Players := AList.update (SocketMessage.PlayerName receivedMessage)
                                      \<lparr>Socket = ws, IP = RemoteIP P ws, Number = number\<rparr>
                                      (Players g)\<rparr>
             in ((storeGameServer roomName g1 s, authenticated),
                 [Send ws (sendMessage\<lparr>RoomName := roomName,
                             SocketMessage.GameName := GameServer.GameName g1,
                             SocketMessage.PlayerName := SocketMessage.PlayerName receivedMessage,
                             SocketMessage.Features := GameServer.Features g1,
                             SocketMessage.Port := GameServer.Port g1,
                             Accept := 0, Message := []\<rparr>)]))"


text \<open>
  \<open>updateLastActivity\<close>, which \<open>wsHandler\<close> runs before the \<open>switch\<close> for every message:
  the first room, in the order \<open>range\<close> visits the registry, where \<open>ws\<close> has a seat
  gets the clock as its \<open>LastActivity\<close>.
\<close>
fun updateLastActivityLoop ::
  "int \<Rightarrow> conn \<Rightarrow> (string \<times> GameServer) list \<Rightarrow> (string \<times> GameServer) list" where
  "updateLastActivityLoop now ws [] = []"
| "updateLastActivityLoop now ws ((i, g) # rest) =
     (if list_ex (\<lambda>(k, player). Socket player = ws) (Players g)
      then (i, g\<lparr>LastActivity := now\<rparr>) # rest
      else (i, g) # updateLastActivityLoop now ws rest)"

definition updateLastActivity :: "int \<Rightarrow> conn \<Rightarrow> LobbyServer \<Rightarrow> LobbyServer" where
  "updateLastActivity now ws s =
     s\<lparr>GameServers := updateLastActivityLoop now ws (GameServers s)\<rparr>"


subsection \<open>A closed connection\<close>

text \<open>
  When \<open>websocket.JSON.Receive\<close> fails, \<open>wsHandler\<close> takes one of two paths: the one
  for \<open>io.EOF\<close>, written in the handler itself, and \<open>handlePlayerDrop\<close> for the error
  text of a connection ``forcibly closed by the remote host''. On any other error it
  reads on. Both paths are modelled with the rooms they take out of the registry: the
  third component of the result lists each such room, as it is when it leaves.

  The \<open>io.EOF\<close> path. The inner loop deletes the entry it stands on and sends the new
  player list of the room (\<open>updatePlayers\<close>) after each deletion. \<open>CloseServers\<close> is the
  first variant's.
\<close>
fun dropSeats :: "conn \<Rightarrow> (string \<times> Client) list \<Rightarrow> GameServer \<Rightarrow> panic + GameServer \<times> event list" where
  "dropSeats ws [] v = Inr (v, [])"
| "dropSeats ws ((k, w) # rest) v =
     (if Socket w = ws then
        let v1 = v\<lparr>Players := AList.delete k (Players v)\<rparr> in
        case updatePlayers v1 of
          Inl p \<Rightarrow> Inl p
        | Inr sent \<Rightarrow>
            (case dropSeats ws rest v1 of
               Inl p \<Rightarrow> Inl p
             | Inr (v2, sent') \<Rightarrow> Inr (v2, sent @ sent'))
      else dropSeats ws rest v)"

fun eofLoop ::
  "conn \<Rightarrow> (string \<times> GameServer) list \<Rightarrow> LobbyServer
     \<Rightarrow> panic + LobbyServer \<times> event list \<times> (string \<times> GameServer) list" where
  "eofLoop ws [] s = Inr (s, [], [])"
| "eofLoop ws ((i, v) # rest) s =
     (if \<not> Running v then
        case dropSeats ws (Players v) v of
          Inl p \<Rightarrow> Inl p
        | Inr (v1, sent) \<Rightarrow>
            let (s1, gone) =
                  (if length (Players v1) = 0
                   then (s\<lparr>GameServers := AList.delete i (GameServers s)\<rparr>,
                         [(i, CloseServers_v1 v1)])
                   else (storeGameServer i v1 s, []))
            in (case eofLoop ws rest s1 of
                  Inl p \<Rightarrow> Inl p
                | Inr (s2, sent', gone') \<Rightarrow> Inr (s2, sent @ sent', gone @ gone'))
      else eofLoop ws rest s)"

definition connectionEOF ::
  "conn \<Rightarrow> LobbyServer \<Rightarrow> panic + LobbyServer \<times> event list \<times> (string \<times> GameServer) list" where
  "connectionEOF ws s = eofLoop ws (GameServers s) s"

text \<open>
  \<open>handlePlayerDrop\<close> returns at the first seat of \<open>ws\<close> it meets. It does not look at
  \<open>Running\<close>, and an emptied room gives its port back (\<open>removePort\<close>) and leaves the
  registry with no call of \<open>CloseServers\<close>.
\<close>
fun handlePlayerDropLoop ::
  "conn \<Rightarrow> (string \<times> GameServer) list \<Rightarrow> LobbyServer
     \<Rightarrow> LobbyServer \<times> (string \<times> GameServer) list" where
  "handlePlayerDropLoop ws [] s = (s, [])"
| "handlePlayerDropLoop ws ((roomName, g) # rest) s =
     (case find (\<lambda>(playerName, player). Socket player = ws) (Players g) of
        Some (playerName, player) \<Rightarrow>
          let g1 = g\<lparr>Players := AList.delete playerName (Players g)\<rparr> in
          if length (Players g1) = 0
          then ((removePort (GameServer.Port g1) s)
                  \<lparr>GameServers := AList.delete roomName (GameServers s)\<rparr>,
                [(roomName, g1)])
          else (storeGameServer roomName g1 s, [])
      | None \<Rightarrow> handlePlayerDropLoop ws rest s)"

definition handlePlayerDrop ::
  "conn \<Rightarrow> LobbyServer \<Rightarrow> LobbyServer \<times> (string \<times> GameServer) list" where
  "handlePlayerDrop ws s = handlePlayerDropLoop ws (GameServers s) s"

section \<open>The lobby claims in the spec's words\<close>

text \<open>
  The definitions of this section are not taken from the source: they say, in the
  words of the spec, what the handlers are to be compared with.
\<close>

text \<open>The frames a list of events writes, with the connection each is written to.\<close>
fun replies :: "event list \<Rightarrow> (conn \<times> SocketMessage) list" where
  "replies [] = []"
| "replies (Send ws message # events) = (ws, message) # replies events"
| "replies (event # events) = replies events"

text \<open>The port \<open>CreateNetworkServers\<close> returns for a fresh room: \<open>0\<close> when allocation fails.\<close>
definition allocatedPort :: "platform \<Rightarrow> int \<Rightarrow> LobbyServer \<Rightarrow> int" where
  "allocatedPort P now s =
     fst (CreateNetworkServers P now (BasePort s) (MaxGames s) zeroGameServer)"

text \<open>The accept code of \<open>create_room\<close>: the first failing check, in the spec's order.\<close>
definition createRoomCode :: "platform \<Rightarrow> int \<Rightarrow> LobbyServer \<Rightarrow> SocketMessage \<Rightarrow> int" where
  "createRoomCode P now s receivedMessage =
     (if map_of (GameServers s) (RoomName receivedMessage) \<noteq> None then 4
      else if NetplayVersion receivedMessage \<noteq> ''MPN-4'' then 2
      else if RoomName receivedMessage = [] then 6
      else if SocketMessage.PlayerName receivedMessage = [] then 6
      else if SocketMessage.Emulator receivedMessage = [] then 7
      else if \<not> validateAuth P now s receivedMessage then 8
      else if allocatedPort P now s = 0 then 9
      else 0)"

text \<open>The accept code of \<open>join_room\<close>: the first failing check, in the spec's order.\<close>
definition joinRoomCode :: "LobbyServer \<Rightarrow> SocketMessage \<Rightarrow> int" where
  "joinRoomCode s receivedMessage =
     (case findGameServer (GameServers s) (SocketMessage.Port receivedMessage) of
        None \<Rightarrow> 5
      | Some (roomName, g) \<Rightarrow>
          if GameServer.Password g \<noteq> []
             \<and> GameServer.Password g \<noteq> SocketMessage.Password receivedMessage then 1
          else if GameServer.ClientSha g \<noteq> SocketMessage.ClientSha receivedMessage then 2
          else if GameServer.MD5 g \<noteq> SocketMessage.MD5 receivedMessage then 2
          else if 4 \<le> length (Players g) then 3
          else if SocketMessage.PlayerName receivedMessage = [] then 6
          else if SocketMessage.PlayerName receivedMessage \<in> fst ` set (Players g) then 4
          else 0)"

definition seatNumbers :: "(string \<times> Client) list \<Rightarrow> int set" where
  "seatNumbers players = Number ` snd ` set players"

text \<open>\<open>n\<close> is the lowest seat number in \<open>{0, 1, 2, 3}\<close> that no player has.\<close>
definition lowestFreeSeat :: "(string \<times> Client) list \<Rightarrow> int \<Rightarrow> bool" where
  "lowestFreeSeat players n =
     (n \<in> {0, 1, 2, 3} \<and> n \<notin> seatNumbers players
      \<and> (\<forall>k \<in> {0, 1, 2, 3}. k < n \<longrightarrow> k \<in> seatNumbers players))"

text \<open>The \<open>reply_get_rooms\<close> frame for the room \<open>v\<close> registered under the name \<open>i\<close>.\<close>
definition roomListing :: "string \<Rightarrow> GameServer \<Rightarrow> SocketMessage" where
  "roomListing i v =
     \<lparr>Features = GameServer.Features v, GameName = GameServer.GameName v,
      Protected = (GameServer.Password v \<noteq> []), Password = [], Message = [], ClientSha = [],
      Emulator = [], PlayerName = GameServer.PlayerName v, RoomName = i,
      MD5 = GameServer.MD5 v, AuthTime = [], Type = ''reply_get_rooms'', Auth = [],
      PlayerNames = [], Accept = 0, NetplayVersion = [], Port = GameServer.Port v\<rparr>"

text \<open>A room a request lists: not running, and created under the request's emulator.\<close>
definition listed :: "SocketMessage \<Rightarrow> string \<times> GameServer \<Rightarrow> bool" where
  "listed receivedMessage =
     (\<lambda>(i, v). \<not> Running v
               \<and> GameServer.Emulator v = SocketMessage.Emulator receivedMessage)"


text \<open>The connection \<open>ws\<close> has a seat in some room of the lobby.\<close>
definition seated :: "conn \<Rightarrow> LobbyServer \<Rightarrow> bool" where
  "seated ws s =
     list_ex (\<lambda>(i, g). list_ex (\<lambda>(k, player). Socket player = ws) (Players g)) (GameServers s)"


text \<open>The shared secret of a request: the environment variable \<open><EMULATOR>_AUTH\<close>.\<close>
definition authCode :: "platform \<Rightarrow> SocketMessage \<Rightarrow> string" where
  "authCode P receivedMessage =
     Getenv P (ToUpper P (SocketMessage.Emulator receivedMessage) @ ''_AUTH'')"

text \<open>
  An association list stands for a Go map when no key is repeated. The rooms of a
  registry are seated when the players of each form a map and sit on numbers
  \<open>0..3\<close>, which is what \<open>createRoom\<close> and \<open>joinRoom\<close> establish.
\<close>
definition goMap :: "('k \<times> 'v) list \<Rightarrow> bool" where
  "goMap m = distinct (map fst m)"

definition seatsInRange :: "(string \<times> Client) list \<Rightarrow> bool" where
  "seatsInRange players = list_all (\<lambda>(k, w). 0 \<le> Number w \<and> Number w < 4) players"

definition seatedRooms :: "(string \<times> GameServer) list \<Rightarrow> bool" where
  "seatedRooms rooms =
     list_all (\<lambda>(i, v). goMap (Players v) \<and> seatsInRange (Players v)) rooms"

text \<open>The seats of a room that are not on the connection \<open>ws\<close>.\<close>
definition seatsLeft :: "conn \<Rightarrow> GameServer \<Rightarrow> (string \<times> Client) list" where
  "seatsLeft ws v = filter (\<lambda>(k, w). Socket w \<noteq> ws) (Players v)"

text \<open>
  The registry after the connection \<open>ws\<close> has closed: a room that has started is as it
  was; a room that has not started loses the seats of \<open>ws\<close>, and leaves the registry
  when no seat is left. \<open>roomsClosed\<close> are the rooms that leave, after \<open>CloseServers\<close>.
\<close>
definition roomsAfterEOF :: "conn \<Rightarrow> (string \<times> GameServer) list \<Rightarrow> (string \<times> GameServer) list" where
  "roomsAfterEOF ws rooms =
     concat (map (\<lambda>(i, v). if Running v then [(i, v)]
                            else if seatsLeft ws v = [] then []
                            else [(i, v\<lparr>Players := seatsLeft ws v\<rparr>)]) rooms)"

definition roomsClosed :: "conn \<Rightarrow> (string \<times> GameServer) list \<Rightarrow> (string \<times> GameServer) list" where
  "roomsClosed ws rooms =
     concat (map (\<lambda>(i, v). if \<not> Running v \<and> seatsLeft ws v = []
                            then [(i, CloseServers_v1 (v\<lparr>Players := []\<rparr>))]
                            else []) rooms)"

subsection \<open>An example lobby\<close>

text \<open>
  A platform to evaluate the handlers on: one secret in the environment, a constant
  in place of the digest, a TCP server that binds the first port above the base port,
  a UDP server that succeeds, and the \<open>int64\<close> minimum for a float out of range.
\<close>
definition examplePlatform :: platform where
  "examplePlatform =
     \<lparr>Getenv = (\<lambda>name. if name = ''M64P_AUTH'' then ''secret'' else []),
      Sum256 = (\<lambda>bytes. [171, 205]),
      ToUpper = (\<lambda>s. if s = ''m64p'' then ''M64P'' else s),
      RemoteIP = (\<lambda>ws. ''10.0.0.1''),
      floatOverflow = - (2 ^ 63),
      createTCPServer = (\<lambda>basePort maxGames g.
         if 1 \<le> maxGames
         then (basePort + 1, g\<lparr>GameServer.Port := basePort + 1, TCPListener := Listening\<rparr>)
         else (0, g)),
      createUDPServer = (\<lambda>g. (False, g\<lparr>UDPListener := Listening\<rparr>))\<rparr>"

definition emptyLobby :: LobbyServer where
  "emptyLobby =
     \<lparr>GameServers = [], Name = ''Localhost'', Motd = ''MPN Beta'', BasePort = 45000,
      MaxGames = 10, DisableBroadcast = False, EnableAuth = False, ActivePorts = []\<rparr>"

text \<open>The room \<open>alpha\<close> before its game starts: \<open>pA\<close> on connection 1, \<open>pB\<close> on connection 2.\<close>
definition lobbyRoom :: GameServer where
  "lobbyRoom =
     exampleRoom\<lparr>Running := False,
       Players := [(''pA'', \<lparr>Socket = 1, IP = ''10.0.0.1'', Number = 0\<rparr>),
                   (''pB'', \<lparr>Socket = 2, IP = ''10.0.0.2'', Number = 1\<rparr>)]\<rparr>"

definition exampleLobby :: LobbyServer where
  "exampleLobby = emptyLobby\<lparr>GameServers := [(''alpha'', lobbyRoom)]\<rparr>"

text \<open>The same lobby once the game of \<open>alpha\<close> has started.\<close>
definition runningLobby :: LobbyServer where
  "runningLobby = emptyLobby\<lparr>GameServers := [(''alpha'', lobbyRoom\<lparr>Running := True\<rparr>)]\<rparr>"

text \<open>A lobby whose only room has its only seat on connection 1.\<close>
definition soloRoom :: GameServer where
  "soloRoom = lobbyRoom\<lparr>Players := [(''pA'', \<lparr>Socket = 1, IP = ''10.0.0.1'', Number = 0\<rparr>)]\<rparr>"

definition soloLobby :: LobbyServer where
  "soloLobby = emptyLobby\<lparr>GameServers := [(''alpha'', soloRoom)]\<rparr>"

text \<open>Three rooms: one protected and open, one running, one of another emulator.\<close>
definition threeRooms :: LobbyServer where
  "threeRooms =
     emptyLobby\<lparr>GameServers :=
       [(''alpha'', lobbyRoom\<lparr>GameServer.Password := ''pw''\<rparr>),
        (''beta'', lobbyRoom\<lparr>Running := True, GameServer.Port := 45002\<rparr>),
        (''gamma'', lobbyRoom\<lparr>GameServer.Emulator := ''other'', GameServer.Port := 45003\<rparr>)]\<rparr>"

definition createAlpha :: SocketMessage where
  "createAlpha =
     zeroMessage\<lparr>Type := ''request_create_room'', RoomName := ''alpha'',
       SocketMessage.PlayerName := ''pA'', SocketMessage.Emulator := ''m64p'',
       NetplayVersion := ''MPN-4'', SocketMessage.MD5 := ''deadbeef'',
       SocketMessage.ClientSha := ''1111'', SocketMessage.GameName := ''game''\<rparr>"

definition joinAlpha :: SocketMessage where
  "joinAlpha =
     zeroMessage\<lparr>Type := ''request_join_room'', SocketMessage.Port := 45001,
       SocketMessage.PlayerName := ''pC'', SocketMessage.MD5 := ''deadbeef'',
       SocketMessage.ClientSha := ''1111''\<rparr>"


definition getRoomsM64p :: SocketMessage where
  "getRoomsM64p =
     zeroMessage\<lparr>Type := ''request_get_rooms'', NetplayVersion := ''MPN-4'',
       SocketMessage.Emulator := ''m64p''\<rparr>"

text \<open>A request signed five seconds before the clock reading \<open>authClock\<close>.\<close>
definition authMessage :: SocketMessage where
  "authMessage =
     getRoomsM64p\<lparr>AuthTime := ''1700000000000'', Auth := ''abcd''\<rparr>"

definition authClock :: int where
  "authClock = 1700000005000000000"

definition authLobby :: LobbyServer where
  "authLobby = emptyLobby\<lparr>EnableAuth := True\<rparr>"

text \<open>
  The same request with the largest \<open>int64\<close> as its time, some 292 million years
  after \<open>authClock\<close>, and signed for that time.
\<close>
definition farMessage :: SocketMessage where
  "farMessage = authMessage\<lparr>AuthTime := ''9223372036854775807''\<rparr>"

section \<open>The C++ relay (server.cpp)\<close>

text \<open>
  \<open>server.h\<close> is not among the sources. From their use, \<open>inputs\<close> is an array of hash
  tables from a frame counter to a pair of an input word and a plugin byte, and
  \<open>buttons\<close> an array of queues of such pairs; both are modelled as tables indexed by
  the player byte of the datagram.
\<close>
record Server =
  inputs :: "byte \<Rightarrow> uint32 \<Rightarrow> (uint32 \<times> byte) option"
  buttons :: "byte \<Rightarrow> (uint32 \<times> byte) list"

datatype cpp_error = ReadOutOfBounds

definition qToBigEndian :: "uint32 \<Rightarrow> byte list" where
  "qToBigEndian w =
     [ucast (drop_bit 24 w), ucast (drop_bit 16 w), ucast (drop_bit 8 w), ucast w]"

text \<open>
  \<open>qFromBigEndian<uint32_t>(src)\<close> reads the four bytes at \<open>src\<close>; the argument is the
  datagram from the offset on, and the caller has checked that it holds four bytes.
\<close>
definition qFromBigEndian :: "byte list \<Rightarrow> uint32" where
  "qFromBigEndian src =
     (case src of
        b0 # b1 # b2 # b3 # rest \<Rightarrow>
          push_bit 24 (ucast b0) OR push_bit 16 (ucast b1) OR push_bit 8 (ucast b2) OR ucast b3
      | _ \<Rightarrow> 0)"

definition setInput :: "byte \<Rightarrow> uint32 \<Rightarrow> uint32 \<times> byte \<Rightarrow> Server \<Rightarrow> Server" where
  "setInput playerNumber count v sv =
     sv\<lparr>inputs := (inputs sv)(playerNumber := (inputs sv playerNumber)(count \<mapsto> v))\<rparr>"

definition checkIfExists :: "byte \<Rightarrow> uint32 \<Rightarrow> Server \<Rightarrow> Server" where
  "checkIfExists playerNumber count sv =
     (if inputs sv playerNumber count = None then
        (case buttons sv playerNumber of
           b # bs \<Rightarrow>
             setInput playerNumber count b (sv\<lparr>buttons := (buttons sv)(playerNumber := bs)\<rparr>)
         | [] \<Rightarrow>
             (case inputs sv playerNumber (count - 1) of
                Some previous \<Rightarrow> setInput playerNumber count previous sv
              | None \<Rightarrow> setInput playerNumber count (0, 0) sv))
      else sv)"

text \<open>
  The loop of \<open>sendInput\<close> runs \<open>buffer[2] = 4\<close> times. \<open>inputs[playerNum][count]\<close> is
  \<open>QHash::operator[]\<close>, which inserts a default pair for a missing key.
\<close>
fun sendInputLoop :: "nat \<Rightarrow> uint32 \<Rightarrow> byte \<Rightarrow> byte \<Rightarrow> Server \<times> byte list \<Rightarrow> Server \<times> byte list" where
  "sendInputLoop 0 count playerNum spectator st = st"
| "sendInputLoop (Suc n) count playerNum spectator (sv, buffer) =
     sendInputLoop n (count + 1) playerNum spectator
       (if spectator = 0 \<or> inputs sv playerNum count \<noteq> None then
          let sv1 = checkIfExists playerNum count sv;
              sv2 = (case inputs sv1 playerNum count of
                       Some v \<Rightarrow> sv1
                     | None \<Rightarrow> setInput playerNum count (0, 0) sv1);
              v = (case inputs sv2 playerNum count of Some v \<Rightarrow> v | None \<Rightarrow> (0, 0))
          in (sv2, buffer @ qToBigEndian count @ qToBigEndian (fst v) @ [snd v])
        else (sv, buffer))"

text \<open>The datagram \<open>sendInput\<close> writes to the sender, if it writes one (\<open>curr > 3\<close>).\<close>
definition sendInput :: "uint32 \<Rightarrow> byte \<Rightarrow> byte \<Rightarrow> Server \<Rightarrow> Server \<times> byte list option" where
  "sendInput count playerNum spectator sv =
     (case sendInputLoop 4 count playerNum spectator (sv, [1, playerNum, 4]) of
        (sv', buffer) \<Rightarrow> (sv', if 3 < length buffer then Some buffer else None))"

text \<open>
  The body of the loop of \<open>readPendingDatagrams\<close>, for one datagram. The source reads
  fixed offsets without looking at the length; a datagram too short for the reads of
  its case is \<open>ReadOutOfBounds\<close>.
\<close>
definition readDatagram :: "byte list \<Rightarrow> Server \<Rightarrow> cpp_error + Server \<times> byte list option" where
  "readDatagram incomingData sv =
     (if length incomingData < 2 then Inl ReadOutOfBounds
      else
        let playerNum = incomingData ! 1 in
        if incomingData ! 0 = 0 then
          (if length incomingData < 11 then Inl ReadOutOfBounds
           else
             let count = qFromBigEndian (drop 2 incomingData);
                 keys = qFromBigEndian (drop 6 incomingData)
             in Inr (sv\<lparr>buttons := (buttons sv)
                          (playerNum := buttons sv playerNum @ [(keys, incomingData ! 10)])\<rparr>,
                     None))
        else if incomingData ! 0 = 2 then
          (if length incomingData < 7 then Inl ReadOutOfBounds
           else
             let count = qFromBigEndian (drop 2 incomingData)
             in Inr (sendInput count playerNum (incomingData ! 6) sv))
        else Inr (sv, None))"

text \<open>The two datagrams of a client, laid out as \<open>readDatagram\<close> reads them.\<close>
definition KeyInfoClient :: "byte \<Rightarrow> uint32 \<Rightarrow> uint32 \<Rightarrow> byte \<Rightarrow> byte list" where
  "KeyInfoClient slot count keys plugin = [0, slot] @ qToBigEndian count @ qToBigEndian keys @ [plugin]"

definition PlayerInputRequest :: "byte \<Rightarrow> uint32 \<Rightarrow> byte \<Rightarrow> byte list" where
  "PlayerInputRequest slot count spectator = [2, slot] @ qToBigEndian count @ [spectator]"

text \<open>An entry of a \<open>KeyInfoServer\<close> datagram: counter, input word, plugin byte.\<close>
definition entry :: "uint32 \<Rightarrow> uint32 \<Rightarrow> byte \<Rightarrow> byte list" where
  "entry count keys plugin = qToBigEndian count @ qToBigEndian keys @ [plugin]"

definition emptyServer :: Server where
  "emptyServer = \<lparr>inputs = (\<lambda>playerNum count. None), buttons = (\<lambda>playerNum. [])\<rparr>"

text \<open>
  What a request with a nonzero \<open>spectator\<close> byte can carry for one counter: the entry
  of the stored pair, or nothing.
\<close>
definition storedEntry :: "Server \<Rightarrow> byte \<Rightarrow> uint32 \<Rightarrow> byte list" where
  "storedEntry sv playerNum count =
     (case inputs sv playerNum count of
        Some (keys, plugin) \<Rightarrow> entry count keys plugin
      | None \<Rightarrow> [])"

definition storedEntries :: "Server \<Rightarrow> byte \<Rightarrow> uint32 \<Rightarrow> byte list" where
  "storedEntries sv playerNum count =
     storedEntry sv playerNum count @ storedEntry sv playerNum (count + 1)
     @ storedEntry sv playerNum (count + 2) @ storedEntry sv playerNum (count + 3)"

chapter \<open>Properties\<close>

section \<open>Frame counters\<close>

lemma uintLarger_uint: "uintLarger v w \<longleftrightarrow> 2147483647 < uint (w - v)"
  by (simp add: uintLarger_def word_less_def)

lemma uint_sub_mod: "uint (w - v) = (uint w - uint v) mod 2 ^ 32"
  for v w :: uint32
  by (simp add: uint_word_ariths)

text \<open>
  C4. \<open>uintLarger v w\<close> holds iff \<open>(w - v) mod 2^32 \<ge> 2^31\<close>, so \<open>v\<close> is not larger
  than \<open>w\<close> (the spec's ``older'') iff \<open>(w - v) mod 2^32 < 2^31\<close>. Counter \<open>0\<close> is
  larger than counter \<open>2^32 - 1\<close>. For the lead counter (modelled from the spec): when
  the packet at \<open>2^32 - 1\<close> is the lead, a \<open>KeyInfoClient\<close> at \<open>0\<close> moves the lead to
  \<open>0\<close>; and in a fresh room, whose lead is \<open>0\<close>, the two packets in sequence leave the
  lead at \<open>0\<close>.
\<close>
theorem C4_uintLarger_half_range:
  fixes v w :: uint32
  shows "(uintLarger v w \<longleftrightarrow> 2 ^ 31 \<le> (uint w - uint v) mod 2 ^ 32)
       \<and> (\<not> uintLarger v w \<longleftrightarrow> (uint w - uint v) mod 2 ^ 32 < 2 ^ 31)
       \<and> uintLarger 0 4294967295
       \<and> keyInfoClientLead 0 4294967295 = 0
       \<and> keyInfoClientLead 0 (keyInfoClientLead 4294967295 0) = 0"
proof -
  have a: "uintLarger v w \<longleftrightarrow> 2 ^ 31 \<le> (uint w - uint v) mod 2 ^ 32"
    unfolding uintLarger_uint uint_sub_mod by auto
  have b: "uintLarger 0 4294967295"
    by (simp add: uintLarger_def)
  have c: "\<not> uintLarger 4294967295 0"
    by (simp add: uintLarger_def)
  have d: "\<not> uintLarger 0 0"
    by (simp add: uintLarger_def)
  from a b c d show ?thesis
    by (auto simp add: keyInfoClientLead_def)
qed

section \<open>The room supervisor\<close>

subsection \<open>ChangeBuffer\<close>

lemma upt_four: "[0..<4] = [0, 1, 2, 3]"
  by (simp add: upt_rec)

lemma length_four: "length xs = 4 \<Longrightarrow> \<exists>a b c d. xs = [a, b, c, d]"
  by (auto simp add: length_Suc_conv eval_nat_numeral)

text \<open>
  Variant 1 does what the spec says of \<open>buffer_change(n)\<close>: in a room with four slots it
  sets \<open>Buffer\<close> to \<open>n\<close>, every \<open>BufferSize[i]\<close> to \<open>0\<close> and every \<open>BufferHealth[i]\<close> to
  \<open>uint32(n)\<close>, and nothing else.
\<close>
lemma ChangeBuffer_v1_four_slots:
  assumes "length (BufferSize (GameData g)) = 4" and "length (BufferHealth (GameData g)) = 4"
  shows "ChangeBuffer_v1 buffer g
       = Inr (g\<lparr>Buffer := buffer,
                 GameData := (GameData g)\<lparr>BufferSize := [0, 0, 0, 0],
                    BufferHealth := replicate 4 (word_of_int buffer)\<rparr>\<rparr>)"
proof -
  from length_four[OF assms(1)] obtain a b c d
    where s: "BufferSize (GameData g) = [a, b, c, d]" by blast
  from length_four[OF assms(2)] obtain a' b' c' d'
    where h: "BufferHealth (GameData g) = [a', b', c', d']" by blast
  show ?thesis
    by (simp add: ChangeBuffer_v1_def s h upt_four eval_nat_numeral)
qed

lemma uint32_of_buffer:
  "0 \<le> buffer \<Longrightarrow> buffer < 2 ^ 32 \<Longrightarrow> uint (word_of_int buffer :: uint32) = buffer"
  by (simp add: uint_word_of_int)

text \<open>Variants 2 and 3 write \<open>uint32(n)\<close> into every \<open>BufferSize[i]\<close> and nothing else.\<close>
lemma ChangeBuffer_v2_four_slots:
  assumes "length (BufferSize (GameData g)) = 4"
  shows "ChangeBuffer_v2 buffer g
       = g\<lparr>Buffer := buffer,
            GameData := (GameData g)\<lparr>BufferSize := replicate 4 (word_of_int buffer)\<rparr>\<rparr>"
proof -
  from length_four[OF assms(1)] obtain a b c d
    where s: "BufferSize (GameData g) = [a, b, c, d]" by blast
  show ?thesis
    by (simp add: ChangeBuffer_v2_def s upt_four eval_nat_numeral)
qed

lemma ChangeBuffer_v3_eq_v2: "ChangeBuffer_v3 = ChangeBuffer_v2"
  by (simp add: fun_eq_iff ChangeBuffer_v3_def ChangeBuffer_v2_def)

text \<open>
  C7. \<open>ChangeBuffer(3)\<close> on the example room, whose \<open>BufferSize\<close> is \<open>[1, 1, 1, 1]\<close> and
  whose \<open>BufferHealth\<close> is \<open>[7, 7, 7, 7]\<close>: variant 1 leaves \<open>BufferSize = [0, 0, 0, 0]\<close> and
  \<open>BufferHealth = [3, 3, 3, 3]\<close>, as the claim says; variants 2 and 3 leave
  \<open>BufferSize = [3, 3, 3, 3]\<close> and \<open>BufferHealth = [7, 7, 7, 7]\<close>.
\<close>
theorem C7_ChangeBuffer_on_example:
  "ChangeBuffer_v1 3 exampleRoom
     = Inr (exampleRoom\<lparr>Buffer := 3,
              GameData := fourSlots\<lparr>BufferSize := [0, 0, 0, 0], BufferHealth := [3, 3, 3, 3]\<rparr>\<rparr>)
   \<and> ChangeBuffer_v2 3 exampleRoom
     = exampleRoom\<lparr>Buffer := 3,
         GameData := fourSlots\<lparr>BufferSize := [3, 3, 3, 3], BufferHealth := [7, 7, 7, 7]\<rparr>\<rparr>
   \<and> ChangeBuffer_v3 3 exampleRoom
     = exampleRoom\<lparr>Buffer := 3,
         GameData := fourSlots\<lparr>BufferSize := [3, 3, 3, 3], BufferHealth := [7, 7, 7, 7]\<rparr>\<rparr>"
  by (simp add: ChangeBuffer_v1_def ChangeBuffer_v2_def ChangeBuffer_v3_def exampleRoom_def
        fourSlots_def upt_four)

subsection \<open>ManagePlayers\<close>

lemma sweepSlot_v1_step:
  assumes "fourSlotRoom g" and "unat i < 4"
  shows "sweepSlot_v1 i (pa, g)
       = Inr (pa \<or> (registered g i \<and> alive g i),
              g\<lparr>GameData := (GameData g)
                    \<lparr>Status := (if wentSilent g i
                                 then Status (GameData g) OR push_bit (unat (i + 1)) 1
                                 else Status (GameData g)),
                      PlayerAlive := (PlayerAlive (GameData g))[unat i := False]\<rparr>,
                  Registrations := (if wentSilent g i
                                    then AList.delete i (Registrations g)
                                    else Registrations g)\<rparr>)"
  using assms
  by (auto simp add: sweepSlot_v1_def clearAlive_def fourSlotRoom_def registered_def alive_def
        wentSilent_def Let_def split: option.splits)

lemma unat_neq: "j \<noteq> i \<Longrightarrow> unat j \<noteq> unat i" for i j :: byte
  by (simp add: word_unat_eq_iff)

text \<open>
  The inner loop of variant 1 over any slots below 4, each visited once: what it
  returns and what it leaves of \<open>Registrations\<close>, \<open>PlayerAlive\<close> and \<open>Status\<close>; every
  other field is as before.
\<close>
lemma forSlots_sweep_v1:
  assumes "fourSlotRoom g" and "list_all (\<lambda>i. unat i < 4) slots" and "distinct slots"
  shows "\<exists>g'. forSlots sweepSlot_v1 slots (pa, g)
              = Inr (pa \<or> list_ex (\<lambda>i. registered g i \<and> alive g i) slots, g')
     \<and> fourSlotRoom g'
     \<and> (\<forall>j. map_of (Registrations g') j
             = (if j \<in> set slots \<and> wentSilent g j then None else map_of (Registrations g) j))
     \<and> (\<forall>j. alive g' j = (j \<notin> set slots \<and> alive g j))
     \<and> (\<forall>m. bit (Status (GameData g')) m
             \<longleftrightarrow> bit (Status (GameData g)) m \<or> (\<exists>i \<in> set slots. wentSilent g i \<and> m = unat i + 1))
     \<and> g' = g\<lparr>GameData := (GameData g)\<lparr>Status := Status (GameData g'),
                                         PlayerAlive := PlayerAlive (GameData g')\<rparr>,
               Registrations := Registrations g'\<rparr>"
  using assms
proof (induction slots arbitrary: pa g)
  case Nil
  then show ?case by simp
next
  case (Cons i slots)
  define g1 where "g1 = g\<lparr>GameData := (GameData g)
                    \<lparr>Status := (if wentSilent g i
                                 then Status (GameData g) OR push_bit (unat (i + 1)) 1
                                 else Status (GameData g)),
                      PlayerAlive := (PlayerAlive (GameData g))[unat i := False]\<rparr>,
                  Registrations := (if wentSilent g i
                                    then AList.delete i (Registrations g)
                                    else Registrations g)\<rparr>"
  have i4: "unat i < 4" and rest4: "list_all (\<lambda>i. unat i < 4) slots"
    and fresh: "i \<notin> set slots" and dist: "distinct slots"
    using Cons.prems by simp_all
  have step: "sweepSlot_v1 i (pa, g) = Inr (pa \<or> (registered g i \<and> alive g i), g1)"
    unfolding g1_def by (rule sweepSlot_v1_step[OF Cons.prems(1) i4])
  have four1: "fourSlotRoom g1"
    using Cons.prems(1) by (simp add: g1_def fourSlotRoom_def Let_def)
  have reg1: "map_of (Registrations g1) j
            = (if j = i \<and> wentSilent g i then None else map_of (Registrations g) j)" for j
    by (auto simp add: g1_def delete_conv)
  have alive1: "alive g1 j = (j \<noteq> i \<and> alive g j)" for j
  proof (cases "j = i")
    case True
    then show ?thesis
      using i4 Cons.prems(1) by (simp add: g1_def alive_def fourSlotRoom_def Let_def)
  next
    case False
    then show ?thesis
      using unat_neq[of j i] by (simp add: g1_def alive_def)
  qed
  have silent1: "j \<noteq> i \<Longrightarrow> wentSilent g1 j = wentSilent g j" for j
    by (simp add: wentSilent_def registered_def reg1 alive1)
  have ra1: "j \<noteq> i \<Longrightarrow> (registered g1 j \<and> alive g1 j) = (registered g j \<and> alive g j)" for j
    by (simp add: registered_def reg1 alive1)
  have bit1: "bit (Status (GameData g1)) m
            \<longleftrightarrow> bit (Status (GameData g)) m \<or> (wentSilent g i \<and> m = unat i + 1)" for m
  proof -
    have "unat (i + 1) = unat i + 1"
      using i4 by (simp add: unat_word_ariths)
    moreover have "unat i + 1 < 8" using i4 by simp
    ultimately show ?thesis
      by (auto simp add: g1_def bit_simps)
  qed
  from Cons.IH[OF four1 rest4 dist, of "pa \<or> (registered g i \<and> alive g i)"]
  obtain g' where
    run: "forSlots sweepSlot_v1 slots (pa \<or> (registered g i \<and> alive g i), g1)
            = Inr ((pa \<or> (registered g i \<and> alive g i))
                     \<or> list_ex (\<lambda>i. registered g1 i \<and> alive g1 i) slots, g')"
    and four': "fourSlotRoom g'"
    and reg': "\<And>j. map_of (Registrations g') j
             = (if j \<in> set slots \<and> wentSilent g1 j then None else map_of (Registrations g1) j)"
    and alive': "\<And>j. alive g' j = (j \<notin> set slots \<and> alive g1 j)"
    and bit': "\<And>m. bit (Status (GameData g')) m
             \<longleftrightarrow> bit (Status (GameData g1)) m
                 \<or> (\<exists>i \<in> set slots. wentSilent g1 i \<and> m = unat i + 1)"
    and frame': "g' = g1\<lparr>GameData := (GameData g1)\<lparr>Status := Status (GameData g'),
                                         PlayerAlive := PlayerAlive (GameData g')\<rparr>,
               Registrations := Registrations g'\<rparr>"
    by blast
  have ex: "list_ex (\<lambda>i. registered g1 i \<and> alive g1 i) slots
          = list_ex (\<lambda>i. registered g i \<and> alive g i) slots"
    unfolding list_ex_iff using fresh ra1 by (metis (no_types, lifting))
  have a: "forSlots sweepSlot_v1 (i # slots) (pa, g)
         = Inr (pa \<or> list_ex (\<lambda>i. registered g i \<and> alive g i) (i # slots), g')"
    using step run ex by auto
  have b: "map_of (Registrations g') j
         = (if j \<in> set (i # slots) \<and> wentSilent g j then None else map_of (Registrations g) j)"
    for j
    using reg'[of j] reg1[of j] silent1[of j] fresh by auto
  have c: "alive g' j = (j \<notin> set (i # slots) \<and> alive g j)" for j
    using alive'[of j] alive1[of j] by auto
  have d: "bit (Status (GameData g')) m
         \<longleftrightarrow> bit (Status (GameData g)) m
             \<or> (\<exists>k \<in> set (i # slots). wentSilent g k \<and> m = unat k + 1)" for m
  proof -
    have "(\<exists>k \<in> set slots. wentSilent g1 k \<and> m = unat k + 1)
        = (\<exists>k \<in> set slots. wentSilent g k \<and> m = unat k + 1)"
      using silent1 fresh by (metis (no_types, lifting))
    then show ?thesis
      using bit'[of m] bit1[of m] by auto
  qed
  have e: "g' = g\<lparr>GameData := (GameData g)\<lparr>Status := Status (GameData g'),
                                         PlayerAlive := PlayerAlive (GameData g')\<rparr>,
               Registrations := Registrations g'\<rparr>"
    by (subst frame') (simp add: g1_def)
  from a four' b c d e show ?case by blast
qed

text \<open>
  A pass of variant 1 does what the spec says of the sweep. In a room with four slots
  it does not panic; it deletes the registration of exactly the slots among 0..3 that
  went silent and sets exactly their bits \<open>i + 1\<close> of \<open>Status\<close>; it clears the four
  \<open>PlayerAlive\<close> flags; and it closes the room and returns iff no registered slot was
  alive, sleeping \<open>DisconnectTimeoutS\<close> seconds before the next pass otherwise.
\<close>
lemma ManagePlayers_v1_sweep:
  assumes four: "fourSlotRoom g"
  shows "\<exists>g' nxt. ManagePlayers_v1 g = Inr (g', nxt)
     \<and> (\<forall>j. map_of (Registrations g') j
             = (if j \<in> {0, 1, 2, 3} \<and> wentSilent g j then None else map_of (Registrations g) j))
     \<and> (\<forall>m. bit (Status (GameData g')) m
             \<longleftrightarrow> bit (Status (GameData g)) m
                 \<or> (\<exists>i \<in> {0, 1, 2, 3}. wentSilent g i \<and> m = unat i + 1))
     \<and> (\<forall>j \<in> {0, 1, 2, 3}. \<not> alive g' j)
     \<and> nxt = (if \<exists>i \<in> {0, 1, 2, 3}. registered g i \<and> alive g i
              then SleepThenRepeat DisconnectTimeoutS else Return)
     \<and> (nxt = Return \<longrightarrow> \<not> Running g' \<and> UDPListener g' = NilPtr \<and> TCPListener g' = NilPtr)"
proof -
  have slots: "list_all (\<lambda>i. unat i < 4) [0, 1, 2, 3 :: byte]" "distinct [0, 1, 2, 3 :: byte]"
    by simp_all
  from forSlots_sweep_v1[OF four slots, of False]
  obtain g1 where
    run: "forSlots sweepSlot_v1 [0, 1, 2, 3] (False, g)
            = Inr (list_ex (\<lambda>i. registered g i \<and> alive g i) [0, 1, 2, 3], g1)"
    and reg: "\<And>j. map_of (Registrations g1) j
             = (if j \<in> set [0, 1, 2, 3] \<and> wentSilent g j then None
                else map_of (Registrations g) j)"
    and al: "\<And>j. alive g1 j = (j \<notin> set [0, 1, 2, 3] \<and> alive g j)"
    and bt: "\<And>m. bit (Status (GameData g1)) m
             \<longleftrightarrow> bit (Status (GameData g)) m
                 \<or> (\<exists>i \<in> set [0, 1, 2, 3]. wentSilent g i \<and> m = unat i + 1)"
    by auto
  show ?thesis
  proof (cases "list_ex (\<lambda>i. registered g i \<and> alive g i) [0, 1, 2, 3]")
    case True
    with run have "ManagePlayers_v1 g = Inr (g1, SleepThenRepeat DisconnectTimeoutS)"
      by (simp add: ManagePlayers_v1_def)
    with True reg al bt show ?thesis
      by (simp add: list_ex_iff)
  next
    case False
    with run have "ManagePlayers_v1 g = Inr ((CloseServers_v1 g1)\<lparr>Running := False\<rparr>, Return)"
      by (simp add: ManagePlayers_v1_def)
    moreover have "Registrations ((CloseServers_v1 g1)\<lparr>Running := False\<rparr>) = Registrations g1"
      "GameData ((CloseServers_v1 g1)\<lparr>Running := False\<rparr>) = GameData g1"
      "UDPListener ((CloseServers_v1 g1)\<lparr>Running := False\<rparr>) = NilPtr"
      "TCPListener ((CloseServers_v1 g1)\<lparr>Running := False\<rparr>) = NilPtr"
      "\<And>j. alive ((CloseServers_v1 g1)\<lparr>Running := False\<rparr>) j = alive g1 j"
      by (simp_all add: CloseServers_v1_def Let_def alive_def)
    ultimately show ?thesis
      using False reg al bt by (simp add: list_ex_iff)
  qed
qed

text \<open>Variants 2 and 3 never write \<open>Status\<close>, whatever the room and the slots.\<close>
lemma forSlots_sweep_v2_Status:
  "forSlots sweepSlot_v2 slots (pa, g) = Inr (pa', g')
     \<Longrightarrow> Status (GameData g') = Status (GameData g)"
proof (induction slots arbitrary: pa g)
  case Nil
  then show ?case by simp
next
  case (Cons i slots)
  from Cons.prems obtain pa1 g1 where
    step: "sweepSlot_v2 i (pa, g) = Inr (pa1, g1)"
    and rest: "forSlots sweepSlot_v2 slots (pa1, g1) = Inr (pa', g')"
    by (auto split: sum.splits)
  from step have "Status (GameData g1) = Status (GameData g)"
    by (auto simp add: sweepSlot_v2_def clearAlive_def Let_def split: option.splits if_splits)
  with Cons.IH[OF rest] show ?case by simp
qed

lemma sweepSlot_v3_eq_v2: "sweepSlot_v3 = sweepSlot_v2"
  by (simp add: fun_eq_iff sweepSlot_v3_def sweepSlot_v2_def)

lemma ManagePlayers_v2_Status:
  assumes "ManagePlayers_v2 now g = Inr (g', nxt)"
  shows "Status (GameData g') = Status (GameData g)"
proof (cases "forSlots sweepSlot_v2 [0, 1, 2, 3] (False, g)")
  case (Inl p)
  with assms show ?thesis by (simp add: ManagePlayers_v2_def)
next
  case (Inr r)
  obtain pa g1 where r: "r = (pa, g1)" by (cases r)
  have "Status (GameData g1) = Status (GameData g)"
    using Inr unfolding r by (rule forSlots_sweep_v2_Status)
  moreover have "GameData g' = GameData g1"
    using assms Inr r
    by (auto simp add: ManagePlayers_v2_def CloseServers_v2_def
          simp del: forSlots.simps split: if_splits)
  ultimately show ?thesis by simp
qed

lemma ManagePlayers_v3_Status:
  assumes "ManagePlayers_v3 g = Inr (g', nxt)"
  shows "Status (GameData g') = Status (GameData g)"
proof (cases "forSlots sweepSlot_v2 [0, 1, 2, 3] (False, g)")
  case (Inl p)
  with assms show ?thesis by (simp add: ManagePlayers_v3_def sweepSlot_v3_eq_v2)
next
  case (Inr r)
  obtain pa g1 where r: "r = (pa, g1)" by (cases r)
  have "Status (GameData g1) = Status (GameData g)"
    using Inr unfolding r by (rule forSlots_sweep_v2_Status)
  moreover have "GameData g' = GameData g1"
    using assms Inr r
    by (auto simp add: ManagePlayers_v3_def CloseServers_v3_def sweepSlot_v3_eq_v2
          simp del: forSlots.simps split: if_splits)
  ultimately show ?thesis by simp
qed

text \<open>
  C6. A pass over the example room, where slot 1 is registered and was not heard
  from. Variant 1 deletes its registration and sets bit 2 of \<open>Status\<close> (\<open>Status = 4\<close>),
  clears the flags and sleeps 30 seconds, as the claim says. Variants 2 and 3 delete
  the registration and clear the flags but leave \<open>Status = 0\<close>; variant 2 does not
  sleep either: it stamps \<open>LastActivity\<close> (here with the clock at 99) and starts the next
  pass.
\<close>
theorem C6_ManagePlayers_on_example:
  "ManagePlayers_v1 exampleRoom
     = Inr (exampleRoom\<lparr>GameData := fourSlots\<lparr>Status := 4,
                           PlayerAlive := [False, False, False, False]\<rparr>,
              Registrations := [(0, \<lparr>RegID = 10, RegPlugin = 2, Raw = 0\<rparr>)]\<rparr>,
            SleepThenRepeat 30)
   \<and> ManagePlayers_v2 99 exampleRoom
     = Inr (exampleRoom\<lparr>GameData := fourSlots\<lparr>Status := 0,
                           PlayerAlive := [False, False, False, False]\<rparr>,
              Registrations := [(0, \<lparr>RegID = 10, RegPlugin = 2, Raw = 0\<rparr>)],
              LastActivity := 99\<rparr>,
            Repeat)
   \<and> ManagePlayers_v3 exampleRoom
     = Inr (exampleRoom\<lparr>GameData := fourSlots\<lparr>Status := 0,
                           PlayerAlive := [False, False, False, False]\<rparr>,
              Registrations := [(0, \<lparr>RegID = 10, RegPlugin = 2, Raw = 0\<rparr>)]\<rparr>,
            SleepThenRepeat 30)"
  by (simp add: ManagePlayers_v1_def ManagePlayers_v2_def ManagePlayers_v3_def
        sweepSlot_v1_def sweepSlot_v2_def sweepSlot_v3_def clearAlive_def exampleRoom_def
        fourSlots_def DisconnectTimeoutS_def AList.delete_eq)

section \<open>validateAuth\<close>

lemma roundShift_small: "a < 2 ^ 53 \<Longrightarrow> roundShift fuel a = 0"
  by (cases fuel) simp_all

text \<open>An \<open>int64\<close> below \<open>2^53\<close> in magnitude is a \<open>float64\<close>.\<close>
lemma float64_exact: "\<bar>d\<bar> < 2 ^ 53 \<Longrightarrow> float64 d = d"
  by (simp add: float64_def roundShift_small Let_def abs_sgn mult.commute)

lemma roundShift_quotient: "2 ^ 52 \<le> a \<Longrightarrow> 2 ^ 52 \<le> a div 2 ^ roundShift fuel a"
proof (induction fuel arbitrary: a)
  case 0
  then show ?case by simp
next
  case (Suc fuel)
  show ?case
  proof (cases "a < 2 ^ 53")
    case True
    with Suc.prems show ?thesis by simp
  next
    case False
    then have "2 ^ 52 \<le> a div 2" by simp
    from Suc.IH[OF this] have "2 ^ 52 \<le> (a div 2) div 2 ^ roundShift fuel (a div 2)" .
    moreover have "(a div 2) div 2 ^ roundShift fuel (a div 2)
                 = a div 2 ^ Suc (roundShift fuel (a div 2))"
      by (simp add: zdiv_zmult2_eq)
    ultimately show ?thesis using False by simp
  qed
qed

lemma abs_float64:
  "\<bar>float64 d\<bar> =
     (let a = \<bar>d\<bar>; e = roundShift 64 a; q = a div 2 ^ e; r = a mod 2 ^ e;
          q' = (if 2 ^ e < 2 * r \<or> (2 * r = 2 ^ e \<and> odd q) then q + 1 else q)
      in q' * 2 ^ e)"
proof -
  have "0 \<le> \<bar>d\<bar> div 2 ^ roundShift 64 \<bar>d\<bar>"
    by (simp add: pos_imp_zdiv_nonneg_iff)
  then show ?thesis
    by (cases "d = 0") (auto simp add: float64_def Let_def abs_mult)
qed

lemma float64_large:
  assumes "2 ^ 53 \<le> \<bar>d\<bar>"
  shows "2 ^ 52 \<le> \<bar>float64 d\<bar>"
proof -
  define a where "a = \<bar>d\<bar>"
  define e where "e = roundShift 64 a"
  define q where "q = a div 2 ^ e"
  define x where "x = q * 2 ^ e"
  define y where "y = (q + 1) * 2 ^ e"
  have q: "2 ^ 52 \<le> q"
    unfolding q_def e_def using assms roundShift_quotient[of a 64] by (simp add: a_def)
  have one: "(1::int) \<le> 2 ^ e" by simp
  from mult_left_mono[OF one, of q] q have "q \<le> x" by (simp add: x_def)
  with q have x: "2 ^ 52 \<le> x" by linarith
  have y: "x \<le> y" by (simp add: x_def y_def distrib_right)
  have "\<bar>float64 d\<bar> = x \<or> \<bar>float64 d\<bar> = y"
    unfolding abs_float64
    by (simp add: Let_def a_def[symmetric] e_def[symmetric] q_def[symmetric] x_def y_def)
  with x y show ?thesis by auto
qed

text \<open>Rounding at most doubles the magnitude, so below \<open>2^62\<close> it stays an \<open>int64\<close>.\<close>
lemma float64_bounded:
  assumes "\<bar>d\<bar> < 2 ^ 62"
  shows "\<bar>float64 d\<bar> < 2 ^ 63"
proof (cases "\<bar>d\<bar> < 2 ^ 53")
  case True
  then show ?thesis by (simp add: float64_exact)
next
  case False
  define a where "a = \<bar>d\<bar>"
  define e where "e = roundShift 64 a"
  define q where "q = a div 2 ^ e"
  define x where "x = q * 2 ^ e"
  define y where "y = (q + 1) * 2 ^ e"
  have q: "2 ^ 52 \<le> q"
    unfolding q_def e_def using False roundShift_quotient[of a 64] by (simp add: a_def)
  have "a = 2 ^ e * q + a mod 2 ^ e"
    unfolding q_def by simp
  moreover have "0 \<le> a mod 2 ^ e" by simp
  ultimately have xa: "x \<le> a"
    unfolding x_def by (metis add.commute le_add_same_cancel2 mult.commute)
  have "(1::int) \<le> q" using q by simp
  from mult_right_mono[OF this, of "2 ^ e"] have ex: "2 ^ e \<le> x" by (simp add: x_def)
  have yx: "y = x + 2 ^ e" by (simp add: x_def y_def distrib_right)
  have pos: "(0::int) \<le> 2 ^ e" by simp
  have y: "y \<le> 2 * a" "x \<le> y"
    using ex yx xa pos by linarith+
  have "\<bar>float64 d\<bar> = x \<or> \<bar>float64 d\<bar> = y"
    unfolding abs_float64
    by (simp add: Let_def a_def[symmetric] e_def[symmetric] q_def[symmetric] x_def y_def)
  moreover have "2 * a < 2 ^ 63" using assms by (simp add: a_def)
  ultimately show ?thesis using y by auto
qed

lemma abs_above: "- (2 ^ 63) \<le> \<bar>x\<bar>" for x :: int
  by (rule order_trans[of _ 0]) simp_all

lemma Sub_cases:
  "Sub t u = t - u \<or> (2 ^ 53 \<le> \<bar>Sub t u\<bar> \<and> 2 ^ 53 \<le> \<bar>t - u\<bar>)"
  by (auto simp add: Sub_def Let_def)

lemma Sub_exact: "\<bar>t - u\<bar> < 2 ^ 62 \<Longrightarrow> Sub t u = t - u"
  by (auto simp add: Sub_def Let_def)

text \<open>
  The clock check of \<open>validateAuth\<close> compares the true difference with fifteen
  minutes, provided the conversion back from \<open>float64\<close> is in range, or yields more than
  fifteen minutes where it is not.
\<close>
lemma skew_check:
  assumes "maxAllowableDifference < floatOverflow P \<or> \<bar>now - receivedTime\<bar> < 2 ^ 62"
  shows "maxAllowableDifference < durationOfFloat P \<bar>float64 (Sub now receivedTime)\<bar>
         \<longleftrightarrow> maxAllowableDifference < \<bar>now - receivedTime\<bar>"
proof -
  define d where "d = Sub now receivedTime"
  show ?thesis
  proof (cases "\<bar>d\<bar> < 2 ^ 53")
    case True
    with Sub_cases[of now receivedTime] have eq: "d = now - receivedTime"
      by (auto simp add: d_def)
    from True have "float64 d = d" by (rule float64_exact)
    moreover have "durationOfFloat P \<bar>d\<bar> = \<bar>d\<bar>"
    proof -
      have "- (2 ^ 63) \<le> \<bar>d\<bar>" by (rule abs_above)
      moreover have "\<bar>d\<bar> < 2 ^ 63" using True by simp
      ultimately show ?thesis unfolding durationOfFloat_def by simp
    qed
    ultimately show ?thesis
      by (simp add: d_def[symmetric] eq[symmetric])
  next
    case False
    then have big: "2 ^ 53 \<le> \<bar>d\<bar>" by simp
    from float64_large[OF big] have fl: "maxAllowableDifference < \<bar>float64 d\<bar>"
      by (simp add: maxAllowableDifference_def)
    have x: "maxAllowableDifference < \<bar>now - receivedTime\<bar>"
      using Sub_cases[of now receivedTime] big
      by (auto simp add: d_def maxAllowableDifference_def)
    have "maxAllowableDifference < durationOfFloat P \<bar>float64 d\<bar>"
    proof (cases "\<bar>float64 d\<bar> < 2 ^ 63")
      case True
      moreover have "- (2 ^ 63) \<le> \<bar>float64 d\<bar>" by (rule abs_above)
      ultimately have "durationOfFloat P \<bar>float64 d\<bar> = \<bar>float64 d\<bar>"
        unfolding durationOfFloat_def by simp
      with fl show ?thesis by simp
    next
      case over: False
      have "\<not> \<bar>now - receivedTime\<bar> < 2 ^ 62"
      proof
        assume small: "\<bar>now - receivedTime\<bar> < 2 ^ 62"
        then have "d = now - receivedTime" by (simp add: d_def Sub_exact)
        with float64_bounded[of d] small over show False by simp
      qed
      with assms have "maxAllowableDifference < floatOverflow P" by simp
      with over show ?thesis by (simp add: durationOfFloat_def)
    qed
    with x show ?thesis by (simp add: d_def)
  qed
qed

text \<open>The digest is printed in lower-case hexadecimal, two digits a byte.\<close>
lemma hexString_digits:
  "length (hexString bs) = 2 * length bs \<and> set (hexString bs) \<subseteq> set ''0123456789abcdef''"
proof (induction bs)
  case Nil
  then show ?case by (simp add: hexString_def)
next
  case (Cons b bs)
  have "hexDigit n \<in> set ''0123456789abcdef''" for n
    unfolding hexDigit_def by (rule nth_mem) simp
  with Cons show ?case by (simp add: hexString_def)
qed

text \<open>
  Where the clock and \<open>authTime\<close> are less than \<open>2^62\<close> nanoseconds (146 years) apart,
  or on a platform whose out-of-range conversion yields more than fifteen minutes:
  with \<open>enable-auth\<close>, \<open>validateAuth\<close> accepts iff \<open>authTime\<close> parses as a decimal
  \<open>int64\<close>, that time in milliseconds is within fifteen minutes of the clock in either
  direction, the secret is not empty, and \<open>auth\<close> is the lower-case hexadecimal
  SHA-256 of \<open>authTime\<close> followed by the secret; without \<open>enable-auth\<close> it accepts.
\<close>
lemma validateAuth_accepts_iff_in_range:
  assumes "maxAllowableDifference < floatOverflow P
           \<or> (\<forall>t. ParseInt (AuthTime receivedMessage) = Some t \<longrightarrow> \<bar>now - UnixMilli t\<bar> < 2 ^ 62)"
  shows "validateAuth P now s receivedMessage
     \<longleftrightarrow> (if EnableAuth s
          then \<exists>timeAsInt. ParseInt (AuthTime receivedMessage) = Some timeAsInt
                 \<and> \<bar>now - timeAsInt * 1000000\<bar> \<le> 15 * 60 * 1000000000
                 \<and> authCode P receivedMessage \<noteq> []
                 \<and> Auth receivedMessage
                     = hexString (Sum256 P (AuthTime receivedMessage @ authCode P receivedMessage))
          else True)"
proof (cases "ParseInt (AuthTime receivedMessage)")
  case None
  then show ?thesis by (simp add: validateAuth_def)
next
  case (Some t)
  with assms have "maxAllowableDifference < floatOverflow P \<or> \<bar>now - UnixMilli t\<bar> < 2 ^ 62"
    by auto
  from skew_check[OF this] Some show ?thesis
    by (auto simp add: validateAuth_def Let_def authCode_def UnixMilli_def
          maxAllowableDifference_def)
qed

lemma ParseInt_authMessage: "ParseInt (AuthTime authMessage) = Some 1700000000000"
  by (simp add: authMessage_def ParseInt_def isDigit_def decimal_def)

text \<open>A request signed five seconds ago is accepted, and refused sixteen minutes later.\<close>
lemma validateAuth_in_range_example:
  "ParseInt (AuthTime authMessage) = Some 1700000000000
   \<and> \<bar>authClock - UnixMilli 1700000000000\<bar> < 2 ^ 62
   \<and> EnableAuth authLobby
   \<and> authCode examplePlatform authMessage = ''secret''
   \<and> Auth authMessage = hexString (Sum256 examplePlatform (''1700000000000'' @ ''secret''))
   \<and> validateAuth examplePlatform authClock authLobby authMessage
   \<and> \<not> validateAuth examplePlatform (authClock + 16 * 60 * 1000000000) authLobby authMessage"
proof -
  have p: "ParseInt (AuthTime authMessage) = Some 1700000000000"
    by (rule ParseInt_authMessage)
  have near: "\<bar>authClock - UnixMilli 1700000000000\<bar> < 2 ^ 62"
    "\<bar>authClock + 16 * 60 * 1000000000 - UnixMilli 1700000000000\<bar> < 2 ^ 62"
    by (simp_all add: authClock_def UnixMilli_def)
  have h1: "maxAllowableDifference < floatOverflow examplePlatform
           \<or> (\<forall>t. ParseInt (AuthTime authMessage) = Some t \<longrightarrow> \<bar>authClock - UnixMilli t\<bar> < 2 ^ 62)"
    using p near by simp
  have h2: "maxAllowableDifference < floatOverflow examplePlatform
           \<or> (\<forall>t. ParseInt (AuthTime authMessage) = Some t
                 \<longrightarrow> \<bar>authClock + 16 * 60 * 1000000000 - UnixMilli t\<bar> < 2 ^ 62)"
    using p near by simp
  have code: "authCode examplePlatform authMessage = ''secret''"
    by (simp add: authCode_def examplePlatform_def authMessage_def getRoomsM64p_def zeroMessage_def)
  have auth: "Auth authMessage = hexString (Sum256 examplePlatform (''1700000000000'' @ ''secret''))"
    by (simp add: authMessage_def examplePlatform_def hexString_def hexDigit_def)
  have time: "AuthTime authMessage = ''1700000000000''"
    by (simp add: authMessage_def)
  have on: "EnableAuth authLobby"
    by (simp add: authLobby_def)
  from validateAuth_accepts_iff_in_range[OF h1, of authLobby]
       validateAuth_accepts_iff_in_range[OF h2, of authLobby]
       p near code auth on
  show ?thesis
    by (simp add: time authClock_def)
qed

lemma roundShift_power: "k \<le> fuel \<Longrightarrow> roundShift fuel (2 ^ (52 + k)) = k"
proof (induction k arbitrary: fuel)
  case 0
  then show ?case by (cases fuel) simp_all
next
  case (Suc k)
  then obtain f where fuel: "fuel = Suc f" and k: "k \<le> f" by (cases fuel) auto
  have "\<not> (2::int) ^ k < 1" by (simp add: not_less)
  then have ge: "\<not> (2::int) ^ (53 + k) < 9007199254740992"
    by (simp add: power_add)
  have "(2::int) ^ (53 + k) = 2 * 2 ^ (52 + k)"
    by (simp add: power_add)
  then have half: "(2::int) ^ (53 + k) div 2 = 2 ^ (52 + k)" by simp
  have "roundShift (Suc f) (2 ^ (53 + k)) = Suc (roundShift f (2 ^ (53 + k) div 2))"
    using ge by simp
  with Suc.IH[OF k] half fuel show ?case by simp
qed

text \<open>
  \<open>Sub\<close> saturates at the \<open>int64\<close> minimum, which is a \<open>float64\<close>; its absolute value
  \<open>2^63\<close> is a \<open>float64\<close> and not an \<open>int64\<close>.
\<close>
lemma float64_minDuration:
  "\<bar>float64 (- 9223372036854775808)\<bar> = 9223372036854775808"
proof -
  have "roundShift 64 (2 ^ (52 + 11)) = 11"
    by (rule roundShift_power) simp
  then have e: "roundShift 64 9223372036854775808 = 11" by simp
  show ?thesis
    unfolding abs_float64 by (simp add: Let_def e)
qed

lemma ParseInt_farMessage: "ParseInt (AuthTime farMessage) = Some 9223372036854775807"
  by (simp add: farMessage_def ParseInt_def isDigit_def decimal_def)

text \<open>
  C8. With \<open>enable-auth\<close>, an \<open>authTime\<close> of 9223372036854775807 milliseconds parses, is
  not within fifteen minutes of the clock \<open>authClock\<close> (it is more than \<open>2^63\<close>
  nanoseconds after it), and yet \<open>validateAuth\<close> accepts the request on a platform
  that converts a \<open>float64\<close> out of range to the \<open>int64\<close> minimum: \<open>Sub\<close> saturates,
  the absolute value \<open>2^63\<close> is out of range, and the converted difference is
  negative, so not above fifteen minutes.
\<close>
theorem C8_validateAuth_far_authTime:
  "EnableAuth authLobby
   \<and> ParseInt (AuthTime farMessage) = Some 9223372036854775807
   \<and> 15 * 60 * 1000000000 < \<bar>authClock - 9223372036854775807 * 1000000\<bar>
   \<and> authCode examplePlatform farMessage = ''secret''
   \<and> Auth farMessage
       = hexString (Sum256 examplePlatform (AuthTime farMessage @ authCode examplePlatform farMessage))
   \<and> floatOverflow examplePlatform = - (2 ^ 63)
   \<and> validateAuth examplePlatform authClock authLobby farMessage"
proof -
  have sub: "Sub authClock (UnixMilli 9223372036854775807) = - 9223372036854775808"
    by (simp add: Sub_def authClock_def UnixMilli_def)
  have over: "durationOfFloat examplePlatform 9223372036854775808 = - 9223372036854775808"
    by (simp add: durationOfFloat_def examplePlatform_def)
  have code: "authCode examplePlatform farMessage = ''secret''"
    by (simp add: authCode_def examplePlatform_def farMessage_def authMessage_def
          getRoomsM64p_def zeroMessage_def)
  have auth: "Auth farMessage
       = hexString (Sum256 examplePlatform (AuthTime farMessage @ ''secret''))"
    by (simp add: farMessage_def authMessage_def examplePlatform_def hexString_def hexDigit_def)
  have on: "EnableAuth authLobby" by (simp add: authLobby_def)
  have accepted: "validateAuth examplePlatform authClock authLobby farMessage"
    using code auth on
    by (simp add: validateAuth_def ParseInt_farMessage sub float64_minDuration over
          maxAllowableDifference_def authCode_def)
  have far: "15 * 60 * 1000000000 < \<bar>authClock - 9223372036854775807 * 1000000\<bar>"
    by (simp add: authClock_def)
  have fo: "floatOverflow examplePlatform = - (2 ^ 63)"
    by (simp add: examplePlatform_def)
  from accepted code auth on far fo show ?thesis
    by (simp add: ParseInt_farMessage)
qed

section \<open>The lobby\<close>

text \<open>The stamp before the \<open>switch\<close> changes \<open>LastActivity\<close> of a room and nothing else.\<close>
lemma updateLastActivityLoop_stamp:
  "map (\<lambda>(i, v). (i, v\<lparr>LastActivity := t\<rparr>)) (updateLastActivityLoop now ws rooms)
     = map (\<lambda>(i, v). (i, v\<lparr>LastActivity := t\<rparr>)) rooms"
  by (induction rooms) auto

lemma updateLastActivity_stamp:
  "map (\<lambda>(i, v). (i, v\<lparr>LastActivity := t\<rparr>)) (GameServers (updateLastActivity now ws s))
     = map (\<lambda>(i, v). (i, v\<lparr>LastActivity := t\<rparr>)) (GameServers s)
   \<and> (updateLastActivity now ws s)\<lparr>GameServers := []\<rparr> = s\<lparr>GameServers := []\<rparr>"
  by (simp add: updateLastActivity_def updateLastActivityLoop_stamp)

lemma replies_append: "replies (xs @ ys) = replies xs @ replies ys"
  by (induction xs rule: replies.induct) simp_all

lemma CreateNetworkServers_replies:
  "replies (snd (snd (CreateNetworkServers P now b m g))) = []"
  by (simp add: CreateNetworkServers_def split: prod.splits)

text \<open>
  C1. Every \<open>request_create_room\<close> is answered by exactly one \<open>reply_create_room\<close> on
  its connection, whose accept code is that of the first failing check in the
  order: name taken (4), version (2), empty room name (6), empty player name (6),
  empty emulator (7), auth (8), port allocation (9), else 0. A failing check leaves
  the lobby as it was. On success the reply echoes the room name, the game name, the
  creator's name and the feature bag, carries the allocated port, and the room is
  registered under its name with the creator as its only player, on seat 0.
\<close>
theorem C1_create_room_verdict:
  "\<exists>s' authenticated' events reply.
      createRoom P now ws receivedMessage (s, authenticated) = ((s', authenticated'), events)
    \<and> replies events = [(ws, reply)]
    \<and> Type reply = ''reply_create_room''
    \<and> Accept reply = createRoomCode P now s receivedMessage
    \<and> (Accept reply \<noteq> 0 \<longrightarrow> s' = s)
    \<and> (Accept reply = 0 \<longrightarrow>
          RoomName reply = RoomName receivedMessage
        \<and> SocketMessage.GameName reply = SocketMessage.GameName receivedMessage
        \<and> SocketMessage.PlayerName reply = SocketMessage.PlayerName receivedMessage
        \<and> SocketMessage.Features reply = SocketMessage.Features receivedMessage
        \<and> SocketMessage.Port reply = allocatedPort P now s
        \<and> (\<exists>g. map_of (GameServers s') (RoomName receivedMessage) = Some g
              \<and> Players g = [(SocketMessage.PlayerName receivedMessage,
                               \<lparr>Socket = ws, IP = RemoteIP P ws, Number = 0\<rparr>)]))"
proof -
  obtain port g0 started where net:
    "CreateNetworkServers P now (BasePort s) (MaxGames s) zeroGameServer = (port, g0, started)"
    by (cases "CreateNetworkServers P now (BasePort s) (MaxGames s) zeroGameServer")
  have st: "replies started = []"
    using CreateNetworkServers_replies[of P now "BasePort s" "MaxGames s" zeroGameServer] net
    by simp
  have port: "allocatedPort P now s = port"
    by (simp add: allocatedPort_def net)
  show ?thesis
    by (auto simp add: createRoom_def createRoomCode_def port net st replies_append Let_def
          NetplayAPIVersion_def zeroMessage_def storeGameServer_def update_conv'
          Accepted_def BadPassword_def MismatchVersion_def RoomFull_def DuplicateName_def
          RoomDeleted_def BadName_def BadEmulator_def BadAuth_def Other_def)
qed

lemma allocatedPort_example: "allocatedPort examplePlatform now emptyLobby = 45001"
  by (simp add: allocatedPort_def CreateNetworkServers_def examplePlatform_def emptyLobby_def)

lemma createRoomCode_example: "createRoomCode examplePlatform now emptyLobby createAlpha = 0"
  by (simp add: createRoomCode_def allocatedPort_example validateAuth_def)
     (simp add: emptyLobby_def createAlpha_def zeroMessage_def)

theorem C1_create_room_verdict_witness:
  "createRoomCode examplePlatform 7 emptyLobby createAlpha = 0
   \<and> createRoomCode examplePlatform 7 exampleLobby createAlpha = 4
   \<and> (\<exists>s' authenticated' events reply.
         createRoom examplePlatform 7 1 createAlpha (emptyLobby, False)
           = ((s', authenticated'), events)
       \<and> replies events = [(1, reply)]
       \<and> Accept reply = 0
       \<and> RoomName reply = ''alpha''
       \<and> SocketMessage.Port reply = 45001
       \<and> (\<exists>g. map_of (GameServers s') ''alpha'' = Some g
             \<and> Players g = [(''pA'', \<lparr>Socket = 1, IP = ''10.0.0.1'', Number = 0\<rparr>)]))"
proof -
  have dup: "createRoomCode examplePlatform 7 exampleLobby createAlpha = 4"
    by (simp add: createRoomCode_def exampleLobby_def emptyLobby_def createAlpha_def
          zeroMessage_def)
  have fields: "RoomName createAlpha = ''alpha''" "SocketMessage.PlayerName createAlpha = ''pA''"
    "RemoteIP examplePlatform c = ''10.0.0.1''" for c
    by (simp_all add: createAlpha_def zeroMessage_def examplePlatform_def)
  from C1_create_room_verdict[of examplePlatform 7 1 createAlpha emptyLobby False]
  obtain s' authenticated' events reply where
    run: "createRoom examplePlatform 7 1 createAlpha (emptyLobby, False)
            = ((s', authenticated'), events)"
    and one: "replies events = [(1, reply)]"
    and code: "Accept reply = createRoomCode examplePlatform 7 emptyLobby createAlpha"
    and ok: "Accept reply = 0 \<longrightarrow>
          RoomName reply = RoomName createAlpha
        \<and> SocketMessage.GameName reply = SocketMessage.GameName createAlpha
        \<and> SocketMessage.PlayerName reply = SocketMessage.PlayerName createAlpha
        \<and> SocketMessage.Features reply = SocketMessage.Features createAlpha
        \<and> SocketMessage.Port reply = allocatedPort examplePlatform 7 emptyLobby
        \<and> (\<exists>g. map_of (GameServers s') (RoomName createAlpha) = Some g
              \<and> Players g = [(SocketMessage.PlayerName createAlpha,
                               \<lparr>Socket = 1, IP = RemoteIP examplePlatform 1, Number = 0\<rparr>)])"
    by blast
  from code have zero: "Accept reply = 0"
    by (simp add: createRoomCode_example)
  with ok run one dup show ?thesis
    by (simp add: createRoomCode_example allocatedPort_example fields)
qed

lemma getRoomsLoop_lists:
  assumes "Type sendMessage = ''reply_get_rooms''" "Password sendMessage = []"
    "Message sendMessage = []" "SocketMessage.ClientSha sendMessage = []"
    "SocketMessage.Emulator sendMessage = []" "AuthTime sendMessage = []"
    "Auth sendMessage = []" "PlayerNames sendMessage = []" "NetplayVersion sendMessage = []"
  shows "getRoomsLoop ws receivedMessage rooms sendMessage
       = map (\<lambda>(i, v). Send ws (roomListing i v)) (filter (listed receivedMessage) rooms)"
  using assms
proof (induction rooms arbitrary: sendMessage)
  case Nil
  then show ?case by simp
next
  case (Cons room rooms)
  obtain i v where room: "room = (i, v)" by (cases room)
  show ?case
  proof (cases "listed receivedMessage (i, v)")
    case False
    then show ?thesis
      using Cons room by (auto simp add: listed_def)
  next
    case True
    define sendMessage1 where "sendMessage1 =
              sendMessage\<lparr>Protected := (GameServer.Password v \<noteq> []),
                          Accept := Accepted,
                          RoomName := i,
                          SocketMessage.MD5 := GameServer.MD5 v,
                          SocketMessage.Port := GameServer.Port v,
                          SocketMessage.GameName := GameServer.GameName v,
                          SocketMessage.Features := GameServer.Features v,
                          SocketMessage.PlayerName := GameServer.PlayerName v\<rparr>"
    have eq: "sendMessage1 = roomListing i v"
      using Cons.prems by (simp add: sendMessage1_def roomListing_def Accepted_def)
    have "getRoomsLoop ws receivedMessage rooms sendMessage1
       = map (\<lambda>(i, v). Send ws (roomListing i v)) (filter (listed receivedMessage) rooms)"
      by (rule Cons.IH) (simp_all add: eq roomListing_def)
    then show ?thesis
      using True room eq by (simp add: listed_def sendMessage1_def Let_def)
  qed
qed

text \<open>
  C10. A \<open>request_get_rooms\<close> that passes the three checks is answered by one
  \<open>reply_get_rooms\<close> for each room that is not running and was created under the
  emulator of the request, in the order the registry is visited, and by nothing
  else: a running room or a room of another emulator is not listed. Each frame has
  accept code 0 and the room's name, game name, MD5, port, features and creator
  name, and \<open>protected\<close> is set iff the room has a password.
\<close>
theorem C10_get_rooms_lists_open_rooms:
  assumes "NetplayVersion receivedMessage = ''MPN-4''"
    and "SocketMessage.Emulator receivedMessage \<noteq> []"
    and "validateAuth P now s receivedMessage"
  shows "getRooms P now ws receivedMessage (s, authenticated)
       = ((s, True),
          map (\<lambda>(i, v). Send ws (roomListing i v))
            (filter (listed receivedMessage) (GameServers s)))"
  using assms
  by (simp add: getRooms_def NetplayAPIVersion_def getRoomsLoop_lists zeroMessage_def)

theorem C10_get_rooms_lists_open_rooms_witness:
  "NetplayVersion getRoomsM64p = ''MPN-4''
   \<and> SocketMessage.Emulator getRoomsM64p \<noteq> []
   \<and> validateAuth examplePlatform 7 threeRooms getRoomsM64p
   \<and> getRooms examplePlatform 7 9 getRoomsM64p (threeRooms, False)
       = ((threeRooms, True),
          [Send 9 (roomListing ''alpha'' (lobbyRoom\<lparr>GameServer.Password := ''pw''\<rparr>))])
   \<and> Protected (roomListing ''alpha'' (lobbyRoom\<lparr>GameServer.Password := ''pw''\<rparr>))
   \<and> Accept (roomListing ''alpha'' (lobbyRoom\<lparr>GameServer.Password := ''pw''\<rparr>)) = 0
   \<and> SocketMessage.Port (roomListing ''alpha'' (lobbyRoom\<lparr>GameServer.Password := ''pw''\<rparr>)) = 45001"
proof -
  have h: "NetplayVersion getRoomsM64p = ''MPN-4''" "SocketMessage.Emulator getRoomsM64p \<noteq> []"
    "validateAuth examplePlatform 7 threeRooms getRoomsM64p"
    by (simp_all add: getRoomsM64p_def zeroMessage_def validateAuth_def threeRooms_def
          emptyLobby_def)
  have rooms: "filter (listed getRoomsM64p) (GameServers threeRooms)
             = [(''alpha'', lobbyRoom\<lparr>GameServer.Password := ''pw''\<rparr>)]"
    by (simp add: listed_def threeRooms_def emptyLobby_def lobbyRoom_def exampleRoom_def
          getRoomsM64p_def zeroMessage_def)
  from C10_get_rooms_lists_open_rooms[OF h, of 9 False] h rooms show ?thesis
    by (simp add: roomListing_def lobbyRoom_def exampleRoom_def)
qed

lemma duplicateName_iff:
  "list_ex (\<lambda>(i, v). name = i) players \<longleftrightarrow> name \<in> fst ` set players"
  by (induction players) auto

lemma update_new_key:
  "k \<notin> fst ` set al \<Longrightarrow> AList.update k v al = al @ [(k, v)]"
  by (induction al) auto

lemma free_iff:
  "list_all (\<lambda>(k, v). Number v \<noteq> number) players \<longleftrightarrow> number \<notin> seatNumbers players"
  by (induction players) (auto simp add: seatNumbers_def)

lemma seats_bound: "card (seatNumbers players) \<le> length players"
proof -
  have "card (seatNumbers players) \<le> card (set players)"
    unfolding seatNumbers_def
    by (metis card_image_le List.finite_set finite_imageI order_trans)
  also have "\<dots> \<le> length players" by (rule card_length)
  finally show ?thesis .
qed

text \<open>Fewer than four players leave a number of \<open>0..3\<close> free, and the loop finds the lowest.\<close>
lemma freeNumber_lowest:
  assumes "length players < 4"
  shows "lowestFreeSeat players (freeNumber players)"
proof -
  have "\<not> {0, 1, 2, 3} \<subseteq> seatNumbers players"
  proof
    assume sub: "{0, 1, 2, 3} \<subseteq> seatNumbers players"
    have "finite (seatNumbers players)" by (simp add: seatNumbers_def)
    from card_mono[OF this sub] have "4 \<le> card (seatNumbers players)" by simp
    with seats_bound[of players] assms show False by simp
  qed
  then show ?thesis
    by (auto simp add: freeNumber_def lowestFreeSeat_def free_iff)
qed

text \<open>
  C2, as the handler has it. A \<open>request_join_room\<close> on a connection that has not
  authenticated is dropped: no reply, no change. On an authenticated connection it
  is answered by one \<open>reply_join_room\<close> whose accept code is that of the first failing
  check in the order: room not found by port (5), password (1), client build (2),
  ROM digest (2), four seats taken (3), empty player name (6), name in use (4),
  else 0. A failing check leaves the lobby, and so the room's players, as they were;
  otherwise the joiner is added to the room on the lowest seat number of \<open>0..3\<close> that
  no player of the room has.
\<close>
theorem C2_join_room_verdict:
  "joinRoom P ws receivedMessage (s, False) = ((s, False), [])
   \<and> (\<exists>s' reply.
         joinRoom P ws receivedMessage (s, True) = ((s', True), [Send ws reply])
       \<and> Type reply = ''reply_join_room''
       \<and> Accept reply = joinRoomCode s receivedMessage
       \<and> (Accept reply \<noteq> 0 \<longrightarrow> s' = s)
       \<and> (Accept reply = 0 \<longrightarrow>
             (\<exists>roomName g n.
                 findGameServer (GameServers s) (SocketMessage.Port receivedMessage)
                   = Some (roomName, g)
               \<and> lowestFreeSeat (Players g) n
               \<and> s' = storeGameServer roomName
                        (g\<lparr>Players := Players g @
                             [(SocketMessage.PlayerName receivedMessage,
                               \<lparr>Socket = ws, IP = RemoteIP P ws, Number = n\<rparr>)]\<rparr>) s)))"
proof (cases "findGameServer (GameServers s) (SocketMessage.Port receivedMessage)")
  case None
  then show ?thesis
    by (simp add: joinRoom_def joinRoomCode_def zeroMessage_def RoomDeleted_def)
next
  case (Some found)
  obtain roomName g where found: "found = (roomName, g)" by (cases found)
  show ?thesis
    using Some found freeNumber_lowest[of "Players g"]
    by (auto simp add: joinRoom_def joinRoomCode_def zeroMessage_def duplicateName_iff
          update_new_key Let_def
          Accepted_def BadPassword_def MismatchVersion_def RoomFull_def DuplicateName_def
          RoomDeleted_def BadName_def)
qed

lemma find_alpha:
  "findGameServer (GameServers exampleLobby) 45001 = Some (''alpha'', lobbyRoom)"
  by (simp add: exampleLobby_def emptyLobby_def lobbyRoom_def exampleRoom_def)

lemma joinRoomCode_example: "joinRoomCode exampleLobby joinAlpha = 0"
proof -
  have "SocketMessage.Port joinAlpha = 45001"
    by (simp add: joinAlpha_def zeroMessage_def)
  with find_alpha show ?thesis
    by (simp add: joinRoomCode_def)
       (simp add: joinAlpha_def zeroMessage_def lobbyRoom_def exampleRoom_def)
qed

text \<open>
  The claim as stated fails for a client that has not authenticated: no check of the
  list fails for its request to join \<open>alpha\<close>, and yet it gets no reply and no seat.
\<close>
theorem C2_join_unauthenticated_dropped:
  "joinRoomCode exampleLobby joinAlpha = 0
   \<and> joinRoom examplePlatform 3 joinAlpha (exampleLobby, False) = ((exampleLobby, False), [])"
  by (simp add: joinRoomCode_example joinRoom_def)

theorem C2_join_room_verdict_witness:
  "joinRoomCode exampleLobby joinAlpha = 0
   \<and> lowestFreeSeat (Players lobbyRoom) 2
   \<and> joinRoom examplePlatform 3 joinAlpha (exampleLobby, True)
       = ((storeGameServer ''alpha''
             (lobbyRoom\<lparr>Players := Players lobbyRoom @
                 [(''pC'', \<lparr>Socket = 3, IP = ''10.0.0.1'', Number = 2\<rparr>)]\<rparr>) exampleLobby, True),
          [Send 3 (zeroMessage\<lparr>Type := ''reply_join_room'', RoomName := ''alpha'',
                     SocketMessage.GameName := ''game'', SocketMessage.PlayerName := ''pC'',
                     SocketMessage.Port := 45001\<rparr>)])"
proof -
  have seat: "lowestFreeSeat (Players lobbyRoom) n \<longleftrightarrow> n = 2" for n
    by (auto simp add: lowestFreeSeat_def seatNumbers_def lobbyRoom_def)
  have port: "SocketMessage.Port joinAlpha = 45001" "SocketMessage.PlayerName joinAlpha = ''pC''"
    "RemoteIP examplePlatform c = ''10.0.0.1''" for c
    by (simp_all add: joinAlpha_def zeroMessage_def examplePlatform_def)
  from C2_join_room_verdict[of examplePlatform 3 joinAlpha exampleLobby]
  obtain s' reply where
    run: "joinRoom examplePlatform 3 joinAlpha (exampleLobby, True) = ((s', True), [Send 3 reply])"
    and code: "Accept reply = joinRoomCode exampleLobby joinAlpha"
    and ok: "Accept reply = 0 \<longrightarrow>
             (\<exists>roomName g n.
                 findGameServer (GameServers exampleLobby) (SocketMessage.Port joinAlpha)
                   = Some (roomName, g)
               \<and> lowestFreeSeat (Players g) n
               \<and> s' = storeGameServer roomName
                        (g\<lparr>Players := Players g @
                             [(SocketMessage.PlayerName joinAlpha,
                               \<lparr>Socket = 3, IP = RemoteIP examplePlatform 3, Number = n\<rparr>)]\<rparr>)
                        exampleLobby)"
    by blast
  from code ok have
    s': "s' = storeGameServer ''alpha''
             (lobbyRoom\<lparr>Players := Players lobbyRoom @
                 [(''pC'', \<lparr>Socket = 3, IP = ''10.0.0.1'', Number = 2\<rparr>)]\<rparr>) exampleLobby"
    by (auto simp add: joinRoomCode_example port find_alpha seat)
  have reply: "reply = zeroMessage\<lparr>Type := ''reply_join_room'', RoomName := ''alpha'',
                     SocketMessage.GameName := ''game'', SocketMessage.PlayerName := ''pC'',
                     SocketMessage.Port := 45001\<rparr>"
    using run find_alpha port
    by (simp add: joinRoom_def Let_def)
       (auto simp add: joinAlpha_def zeroMessage_def lobbyRoom_def exampleRoom_def
          split: if_splits)
  from run s' reply seat[of 2] show ?thesis
    by (simp add: joinRoomCode_example)
qed















section \<open>A closed connection\<close>

lemma playerNames_ok:
  "seatsInRange players \<Longrightarrow> length names = 4
     \<Longrightarrow> \<exists>names'. playerNames players names = Inr names'"
  by (induction players names rule: playerNames.induct) (auto simp add: seatsInRange_def)

lemma updatePlayers_ok:
  "seatsInRange (Players v) \<Longrightarrow> \<exists>sent. updatePlayers v = Inr sent"
  using playerNames_ok[of "Players v" "replicate 4 []"]
  by (auto simp add: updatePlayers_def)

lemma delete_middle:
  "distinct (map fst (pre @ (k, w) # rest))
     \<Longrightarrow> AList.delete k (pre @ (k, w) # rest) = pre @ rest"
proof -
  assume d: "distinct (map fst (pre @ (k, w) # rest))"
  have "AList.delete k (pre @ (k, w) # rest) = AList.delete k pre @ AList.delete k rest"
    by (simp add: AList.delete_eq)
  moreover from d have "k \<notin> fst ` set pre" "k \<notin> fst ` set rest" by auto
  ultimately show ?thesis by simp
qed

lemma update_middle:
  "distinct (map fst (pre @ (k, w) # rest))
     \<Longrightarrow> AList.update k w' (pre @ (k, w) # rest) = pre @ (k, w') # rest"
  by (induction pre) auto

text \<open>The inner loop of the \<open>io.EOF\<close> path removes exactly the seats of \<open>ws\<close>.\<close>
lemma dropSeats_filters:
  assumes "goMap (pre @ rest)" and "seatsInRange (pre @ rest)"
  shows "\<exists>sent. dropSeats ws rest (v\<lparr>Players := pre @ rest\<rparr>)
               = Inr (v\<lparr>Players := pre @ filter (\<lambda>(k, w). Socket w \<noteq> ws) rest\<rparr>, sent)"
  using assms
proof (induction rest arbitrary: pre)
  case Nil
  then show ?case by simp
next
  case (Cons seat rest)
  obtain k w where seat: "seat = (k, w)" by (cases seat)
  show ?case
  proof (cases "Socket w = ws")
    case True
    have del: "AList.delete k (pre @ (k, w) # rest) = pre @ rest"
      using Cons.prems(1) seat by (simp add: goMap_def delete_middle)
    have wf: "goMap (pre @ rest)" "seatsInRange (pre @ rest)"
      using Cons.prems seat by (auto simp add: goMap_def seatsInRange_def)
    from updatePlayers_ok[of "v\<lparr>Players := pre @ rest\<rparr>"] wf(2)
    obtain sent where sent: "updatePlayers (v\<lparr>Players := pre @ rest\<rparr>) = Inr sent" by auto
    from Cons.IH[OF wf] obtain sent' where
      "dropSeats ws rest (v\<lparr>Players := pre @ rest\<rparr>)
         = Inr (v\<lparr>Players := pre @ filter (\<lambda>(k, w). Socket w \<noteq> ws) rest\<rparr>, sent')" by blast
    with True seat del sent show ?thesis by simp
  next
    case False
    have wf: "goMap ((pre @ [(k, w)]) @ rest)" "seatsInRange ((pre @ [(k, w)]) @ rest)"
      using Cons.prems seat by simp_all
    from Cons.IH[OF wf] obtain sent' where
      "dropSeats ws rest (v\<lparr>Players := (pre @ [(k, w)]) @ rest\<rparr>)
         = Inr (v\<lparr>Players := (pre @ [(k, w)]) @ filter (\<lambda>(k, w). Socket w \<noteq> ws) rest\<rparr>,
                sent')"
      by blast
    with False seat show ?thesis by simp
  qed
qed

lemma dropSeats_room:
  assumes "goMap (Players v)" and "seatsInRange (Players v)"
  shows "\<exists>sent. dropSeats ws (Players v) v = Inr (v\<lparr>Players := seatsLeft ws v\<rparr>, sent)"
  using dropSeats_filters[of "[]" "Players v" ws v] assms by (simp add: seatsLeft_def)

lemma eofLoop_rooms:
  assumes "goMap (pre @ rest)" and "seatedRooms rest"
  shows "\<exists>sent. eofLoop ws rest (s\<lparr>GameServers := pre @ rest\<rparr>)
               = Inr (s\<lparr>GameServers := pre @ roomsAfterEOF ws rest\<rparr>, sent,
                      roomsClosed ws rest)"
  using assms
proof (induction rest arbitrary: pre)
  case Nil
  then show ?case by (simp add: roomsAfterEOF_def roomsClosed_def)
next
  case (Cons room rest)
  obtain i v where room: "room = (i, v)" by (cases room)
  have seated: "seatedRooms rest" and vseats: "goMap (Players v)" "seatsInRange (Players v)"
    using Cons.prems(2) room by (simp_all add: seatedRooms_def)
  have keys: "distinct (map fst (pre @ (i, v) # rest))"
    using Cons.prems(1) room by (simp add: goMap_def)
  show ?case
  proof (cases "Running v")
    case True
    have "goMap ((pre @ [(i, v)]) @ rest)"
      using Cons.prems(1) room by simp
    from Cons.IH[OF this seated] obtain sent where
      "eofLoop ws rest (s\<lparr>GameServers := (pre @ [(i, v)]) @ rest\<rparr>)
         = Inr (s\<lparr>GameServers := (pre @ [(i, v)]) @ roomsAfterEOF ws rest\<rparr>, sent,
                roomsClosed ws rest)"
      by blast
    with True room show ?thesis
      by (simp add: roomsAfterEOF_def roomsClosed_def)
  next
    case False
    from dropSeats_room[OF vseats] obtain sent0 where
      drop: "dropSeats ws (Players v) v = Inr (v\<lparr>Players := seatsLeft ws v\<rparr>, sent0)" by blast
    show ?thesis
    proof (cases "seatsLeft ws v = []")
      case True
      have "goMap (pre @ rest)"
        using Cons.prems(1) room by (auto simp add: goMap_def)
      from Cons.IH[OF this seated] obtain sent where
        "eofLoop ws rest (s\<lparr>GameServers := pre @ rest\<rparr>)
           = Inr (s\<lparr>GameServers := pre @ roomsAfterEOF ws rest\<rparr>, sent, roomsClosed ws rest)"
        by blast
      with \<open>\<not> Running v\<close> True room drop delete_middle[OF keys] show ?thesis
        by (simp add: roomsAfterEOF_def roomsClosed_def)
    next
      case left: False
      have "goMap ((pre @ [(i, v\<lparr>Players := seatsLeft ws v\<rparr>)]) @ rest)"
        using Cons.prems(1) room by (simp add: goMap_def)
      from Cons.IH[OF this seated] obtain sent where
        "eofLoop ws rest
           (s\<lparr>GameServers := (pre @ [(i, v\<lparr>Players := seatsLeft ws v\<rparr>)]) @ rest\<rparr>)
           = Inr (s\<lparr>GameServers :=
                      (pre @ [(i, v\<lparr>Players := seatsLeft ws v\<rparr>)]) @ roomsAfterEOF ws rest\<rparr>,
                  sent, roomsClosed ws rest)"
        by blast
      with \<open>\<not> Running v\<close> left room drop update_middle[OF keys] show ?thesis
        by (simp add: roomsAfterEOF_def roomsClosed_def storeGameServer_def)
    qed
  qed
qed

lemma CloseServers_v1_closed:
  "UDPListener (CloseServers_v1 g) = NilPtr \<and> TCPListener (CloseServers_v1 g) = NilPtr
   \<and> \<not> Running (CloseServers_v1 g)"
  by (simp add: CloseServers_v1_def Let_def)

lemma roomsClosed_closed:
  "list_all (\<lambda>(i, v). UDPListener v = NilPtr \<and> TCPListener v = NilPtr) (roomsClosed ws rooms)"
  by (induction rooms) (auto simp add: roomsClosed_def CloseServers_v1_closed)

text \<open>
  C9, as the \<open>io.EOF\<close> path has it. When the connection \<open>ws\<close> closes, every room that
  has not started loses every seat whose socket is \<open>ws\<close>; a room that has started keeps
  its seats. A room that has not started and has no seat left is destroyed:
  \<open>CloseServers\<close> closes its two listeners and its entry leaves the registry. Nothing
  else of the lobby changes. (The registry and the rooms' players are Go maps, and the
  seat numbers are in \<open>0..3\<close>, so that \<open>updatePlayers\<close> does not panic.)
\<close>
theorem C9_connection_closed:
  assumes "goMap (GameServers s)" and "seatedRooms (GameServers s)"
  shows "(\<exists>sent. connectionEOF ws s
            = Inr (s\<lparr>GameServers := roomsAfterEOF ws (GameServers s)\<rparr>, sent,
                   roomsClosed ws (GameServers s)))
       \<and> list_all (\<lambda>(i, v). UDPListener v = NilPtr \<and> TCPListener v = NilPtr)
           (roomsClosed ws (GameServers s))"
  using eofLoop_rooms[of "[]" "GameServers s" ws s] assms roomsClosed_closed
  by (simp add: connectionEOF_def)

text \<open>
  The claim as stated fails for a room that has started: connection 1 holds the seat
  of \<open>pA\<close> in the running room \<open>alpha\<close>, and when it closes the lobby is as before.
\<close>
theorem C9_running_room_keeps_seat:
  "map_of (GameServers runningLobby) ''alpha'' = Some (lobbyRoom\<lparr>Running := True\<rparr>)
   \<and> map_of (Players (lobbyRoom\<lparr>Running := True\<rparr>)) ''pA''
       = Some \<lparr>Socket = 1, IP = ''10.0.0.1'', Number = 0\<rparr>
   \<and> connectionEOF 1 runningLobby = Inr (runningLobby, [], [])"
  by (simp add: connectionEOF_def runningLobby_def emptyLobby_def lobbyRoom_def)

theorem C9_connection_closed_witness:
  "goMap (GameServers exampleLobby) \<and> seatedRooms (GameServers exampleLobby)
   \<and> goMap (GameServers soloLobby) \<and> seatedRooms (GameServers soloLobby)
   \<and> (\<exists>sent. connectionEOF 1 exampleLobby
         = Inr (exampleLobby\<lparr>GameServers :=
                  [(''alpha'', lobbyRoom\<lparr>Players :=
                      [(''pB'', \<lparr>Socket = 2, IP = ''10.0.0.2'', Number = 1\<rparr>)]\<rparr>)]\<rparr>, sent, []))
   \<and> (\<exists>sent. connectionEOF 1 soloLobby
         = Inr (soloLobby\<lparr>GameServers := []\<rparr>, sent,
                [(''alpha'', soloRoom\<lparr>Players := [], UDPListener := NilPtr,
                                      TCPListener := NilPtr\<rparr>)]))"
proof -
  have wf: "goMap (GameServers exampleLobby)" "seatedRooms (GameServers exampleLobby)"
    "goMap (GameServers soloLobby)" "seatedRooms (GameServers soloLobby)"
    by (simp_all add: goMap_def seatedRooms_def seatsInRange_def exampleLobby_def soloLobby_def
          emptyLobby_def lobbyRoom_def soloRoom_def)
  have a: "roomsAfterEOF 1 (GameServers exampleLobby)
         = [(''alpha'', lobbyRoom\<lparr>Players :=
                [(''pB'', \<lparr>Socket = 2, IP = ''10.0.0.2'', Number = 1\<rparr>)]\<rparr>)]"
    "roomsClosed 1 (GameServers exampleLobby) = []"
    by (simp_all add: roomsAfterEOF_def roomsClosed_def seatsLeft_def exampleLobby_def
          emptyLobby_def lobbyRoom_def)
  have b: "roomsAfterEOF 1 (GameServers soloLobby) = []"
    "roomsClosed 1 (GameServers soloLobby)
       = [(''alpha'', soloRoom\<lparr>Players := [], UDPListener := NilPtr, TCPListener := NilPtr\<rparr>)]"
    by (simp_all add: roomsAfterEOF_def roomsClosed_def seatsLeft_def soloLobby_def
          emptyLobby_def soloRoom_def lobbyRoom_def exampleRoom_def CloseServers_v1_def)
  from C9_connection_closed[OF wf(1,2), of 1] C9_connection_closed[OF wf(3,4), of 1] wf a b
  show ?thesis by simp
qed

section \<open>The C++ relay\<close>

lemma qFromBigEndian_qToBigEndian: "qFromBigEndian (qToBigEndian w @ rest) = w"
proof (rule bit_word_eqI)
  fix n :: nat
  assume n: "n < LENGTH(32)"
  consider "n < 8" | "8 \<le> n" "n < 16" | "16 \<le> n" "n < 24" | "24 \<le> n" "n < 32"
    using n by fastforce
  then show "bit (qFromBigEndian (qToBigEndian w @ rest)) n = bit w n"
    by cases (auto simp add: qFromBigEndian_def qToBigEndian_def bit_simps)
qed

lemma read_KeyInfoClient:
  "readDatagram (KeyInfoClient i c k p) sv
     = Inr (sv\<lparr>buttons := (buttons sv)(i := buttons sv i @ [(k, p)])\<rparr>, None)"
proof -
  have "drop 6 (KeyInfoClient i c k p) = qToBigEndian k @ [p]"
    by (simp add: KeyInfoClient_def qToBigEndian_def)
  moreover have "drop 2 (KeyInfoClient i c k p) = qToBigEndian c @ (qToBigEndian k @ [p])"
    by (simp add: KeyInfoClient_def)
  moreover have "KeyInfoClient i c k p ! 10 = p" "KeyInfoClient i c k p ! 0 = 0"
    "KeyInfoClient i c k p ! 1 = i" "length (KeyInfoClient i c k p) = 11"
    by (simp_all add: KeyInfoClient_def qToBigEndian_def)
  ultimately show ?thesis
    by (simp add: readDatagram_def qFromBigEndian_qToBigEndian)
qed

lemma read_PlayerInputRequest:
  "readDatagram (PlayerInputRequest i c spectator) sv = Inr (sendInput c i spectator sv)"
proof -
  have "drop 2 (PlayerInputRequest i c spectator) = qToBigEndian c @ [spectator]"
    by (simp add: PlayerInputRequest_def)
  moreover have "PlayerInputRequest i c spectator ! 6 = spectator"
    "PlayerInputRequest i c spectator ! 0 = 2" "PlayerInputRequest i c spectator ! 1 = i"
    "length (PlayerInputRequest i c spectator) = 7"
    by (simp_all add: PlayerInputRequest_def qToBigEndian_def)
  ultimately show ?thesis
    by (simp add: readDatagram_def qFromBigEndian_qToBigEndian)
qed

lemma checkIfExists_keeps:
  "inputs sv i c = Some v \<Longrightarrow> inputs (checkIfExists j c' sv) i c = Some v"
  by (auto simp add: checkIfExists_def setInput_def split: list.splits option.splits)

lemma checkIfExists_stored:
  "inputs sv i c \<noteq> None \<Longrightarrow> checkIfExists i c sv = sv"
  by (cases "inputs sv i c") (simp_all add: checkIfExists_def)

text \<open>The loop only appends to the buffer and never overwrites a stored pair.\<close>
lemma sendInputLoop_extends:
  "sendInputLoop n c' j sp (sv, buf) = (sv', buf') \<Longrightarrow>
     (\<exists>rest. buf' = buf @ rest) \<and> (inputs sv i c = Some v \<longrightarrow> inputs sv' i c = Some v)"
proof (induction n arbitrary: c' sv buf)
  case 0
  then show ?case by simp
next
  case (Suc n)
  show ?case
  proof (cases "sp = 0 \<or> inputs sv j c' \<noteq> None")
    case False
    with Suc.prems have "sendInputLoop n (c' + 1) j sp (sv, buf) = (sv', buf')" by simp
    from Suc.IH[OF this] show ?thesis .
  next
    case True
    define sv1 where "sv1 = checkIfExists j c' sv"
    define sv2 where
      "sv2 = (case inputs sv1 j c' of Some v \<Rightarrow> sv1 | None \<Rightarrow> setInput j c' (0, 0) sv1)"
    define w where "w = (case inputs sv2 j c' of Some v \<Rightarrow> v | None \<Rightarrow> (0, 0))"
    have "sendInputLoop (Suc n) c' j sp (sv, buf)
        = sendInputLoop n (c' + 1) j sp
            (sv2, buf @ qToBigEndian c' @ qToBigEndian (fst w) @ [snd w])"
      unfolding w_def sv2_def sv1_def using True by (simp add: Let_def)
    with Suc.prems
    have step: "sendInputLoop n (c' + 1) j sp
                  (sv2, buf @ qToBigEndian c' @ qToBigEndian (fst w) @ [snd w]) = (sv', buf')"
      by simp
    have keep: "inputs sv i c = Some v \<longrightarrow> inputs sv2 i c = Some v"
      by (auto simp add: sv2_def sv1_def checkIfExists_keeps setInput_def split: option.splits)
    from Suc.IH[OF step] keep show ?thesis by auto
  qed
qed

lemma four_Suc: "(4::nat) = Suc (Suc (Suc (Suc 0)))"
  by simp

text \<open>A request with a nonzero \<open>spectator\<close> byte reads the tables and changes nothing.\<close>
lemma sendInput_spectator:
  assumes "spectator \<noteq> 0"
  shows "sendInput c i spectator sv
       = (sv, if storedEntries sv i c = [] then None
              else Some ([1, i, 4] @ storedEntries sv i c))"
proof -
  have one: "sendInputLoop (Suc n) c' i spectator (sv, b)
           = sendInputLoop n (c' + 1) i spectator (sv, b @ storedEntry sv i c')" for n c' b
    using assms
    by (auto simp add: storedEntry_def entry_def checkIfExists_stored split: option.splits)
  have arith: "c + 1 + 1 = c + 2" "c + 2 + 1 = c + 3" by simp_all
  have "sendInputLoop 4 c i spectator (sv, [1, i, 4]) = (sv, [1, i, 4] @ storedEntries sv i c)"
    unfolding four_Suc storedEntries_def
    by (simp only: one sendInputLoop.simps(1) arith append_assoc)
  then show ?thesis
    by (simp add: sendInput_def)
qed

text \<open>
  With \<open>spectator = 0\<close> and nothing stored at \<open>count\<close>, the first entry is the head of
  the queue, and the pair is stored at \<open>count\<close>.
\<close>
lemma sendInput_player_first:
  assumes "inputs sv i c = None" and "buttons sv i = (k, p) # queued"
  shows "\<exists>sv' rest. sendInput c i 0 sv = (sv', Some ([1, i, 4] @ entry c k p @ rest))
           \<and> inputs sv' i c = Some (k, p)"
proof -
  define sv1 where "sv1 = setInput i c (k, p) (sv\<lparr>buttons := (buttons sv)(i := queued)\<rparr>)"
  have stored: "inputs sv1 i c = Some (k, p)"
    by (simp add: sv1_def setInput_def)
  have chk: "checkIfExists i c sv = sv1"
    using assms by (simp add: checkIfExists_def sv1_def)
  obtain sv' buf' where loop:
    "sendInputLoop (Suc (Suc (Suc 0))) (c + 1) i 0 (sv1, [1, i, 4] @ entry c k p) = (sv', buf')"
    by (cases "sendInputLoop (Suc (Suc (Suc 0))) (c + 1) i 0 (sv1, [1, i, 4] @ entry c k p)")
  have "sendInputLoop (Suc (Suc (Suc (Suc 0)))) c i 0 (sv, [1, i, 4])
      = sendInputLoop (Suc (Suc (Suc 0))) (c + 1) i 0 (sv1, [1, i, 4] @ entry c k p)"
    by (subst sendInputLoop.simps(2)) (simp add: chk stored entry_def del: sendInputLoop.simps)
  then have first: "sendInputLoop 4 c i 0 (sv, [1, i, 4]) = (sv', buf')"
    unfolding four_Suc using loop by simp
  from sendInputLoop_extends[OF loop, of i c "(k, p)"] stored
  obtain rest where rest: "buf' = ([1, i, 4] @ entry c k p) @ rest" and kept: "inputs sv' i c = Some (k, p)"
    by auto
  have "3 < length buf'"
    using rest by (simp add: entry_def qToBigEndian_def)
  with first rest kept show ?thesis
    by (simp add: sendInput_def)
qed

text \<open>
  C3, as the relay has it. \<open>KeyInfoClient\<close> appends the pair \<open>(k, p)\<close> to the queue of the
  slot and does not use its counter. If the slot had nothing queued and nothing stored
  at \<open>c\<close>, a \<open>PlayerInputRequest\<close> at \<open>c\<close> with \<open>spectator = 0\<close> is answered by one datagram
  whose first entry is \<open>(c, k, p)\<close>, and from then on so is one with a nonzero
  \<open>spectator\<close> byte. In every state, a request with a nonzero \<open>spectator\<close> byte leaves the
  state as it is and is answered by exactly the stored entries among its four
  counters, by no datagram when there is none: nothing is synthesised.
\<close>
theorem C3_relay_round_trip:
  assumes "buttons sv i = []" and "inputs sv i c = None" and "spectator \<noteq> 0"
  shows "(\<exists>sv1 sv2 rest more.
            readDatagram (KeyInfoClient i c k p) sv = Inr (sv1, None)
          \<and> readDatagram (PlayerInputRequest i c 0) sv1
              = Inr (sv2, Some ([1, i, 4] @ entry c k p @ rest))
          \<and> readDatagram (PlayerInputRequest i c spectator) sv2
              = Inr (sv2, Some ([1, i, 4] @ entry c k p @ more)))
       \<and> readDatagram (PlayerInputRequest j c' spectator) other
           = Inr (other, if storedEntries other j c' = [] then None
                         else Some ([1, j, 4] @ storedEntries other j c'))"
proof -
  define sv1 where "sv1 = sv\<lparr>buttons := (buttons sv)(i := buttons sv i @ [(k, p)])\<rparr>"
  have q: "inputs sv1 i c = None" "buttons sv1 i = [(k, p)]"
    using assms by (simp_all add: sv1_def)
  from sendInput_player_first[OF q]
  obtain sv2 rest where player:
    "sendInput c i 0 sv1 = (sv2, Some ([1, i, 4] @ entry c k p @ rest))"
    and stored: "inputs sv2 i c = Some (k, p)"
    by auto
  have "storedEntries sv2 i c
      = entry c k p @ storedEntry sv2 i (c + 1) @ storedEntry sv2 i (c + 2) @ storedEntry sv2 i (c + 3)"
    using stored by (simp add: storedEntries_def storedEntry_def)
  moreover have "entry c k p \<noteq> []"
    by (simp add: entry_def)
  ultimately have "sendInput c i spectator sv2
      = (sv2, Some ([1, i, 4] @ entry c k p
           @ (storedEntry sv2 i (c + 1) @ storedEntry sv2 i (c + 2) @ storedEntry sv2 i (c + 3))))"
    using sendInput_spectator[OF assms(3), of c i sv2] by simp
  with player show ?thesis
    using assms(3)
    by (simp add: read_KeyInfoClient read_PlayerInputRequest sendInput_spectator sv1_def)
qed

theorem C3_relay_round_trip_witness:
  "buttons emptyServer 0 = [] \<and> inputs emptyServer 0 100 = None \<and> (1 :: byte) \<noteq> 0
   \<and> (\<exists>sv1 sv2 rest more.
            readDatagram (KeyInfoClient 0 100 2864434397 2) emptyServer = Inr (sv1, None)
          \<and> readDatagram (PlayerInputRequest 0 100 0) sv1
              = Inr (sv2, Some ([1, 0, 4] @ entry 100 2864434397 2 @ rest))
          \<and> readDatagram (PlayerInputRequest 0 100 1) sv2
              = Inr (sv2, Some ([1, 0, 4] @ entry 100 2864434397 2 @ more)))
   \<and> readDatagram (PlayerInputRequest 0 100 1) emptyServer = Inr (emptyServer, None)"
proof -
  have h: "buttons emptyServer 0 = []" "inputs emptyServer 0 100 = None" "(1 :: byte) \<noteq> 0"
    by (simp_all add: emptyServer_def)
  have "storedEntries emptyServer 0 100 = []"
    by (simp add: storedEntries_def storedEntry_def emptyServer_def)
  with h C3_relay_round_trip[OF h, of 2864434397 2 0 100 emptyServer] show ?thesis
    by simp
qed

text \<open>
  The claim as stated fails in the empty relay: after the \<open>KeyInfoClient\<close> for slot 0 at
  counter 100, the pair waits in the queue, and the request with \<open>spectator = 1\<close> is
  answered by no datagram.
\<close>
theorem C3_spectator_request_unanswered:
  "readDatagram (KeyInfoClient 0 100 2864434397 2) emptyServer
     = Inr (\<lparr>inputs = (\<lambda>playerNum count. None),
             buttons = (\<lambda>playerNum. [])(0 := [(2864434397, 2)])\<rparr>, None)
   \<and> readDatagram (PlayerInputRequest 0 100 1)
        \<lparr>inputs = (\<lambda>playerNum count. None),
         buttons = (\<lambda>playerNum. [])(0 := [(2864434397, 2)])\<rparr>
     = Inr (\<lparr>inputs = (\<lambda>playerNum count. None),
             buttons = (\<lambda>playerNum. [])(0 := [(2864434397, 2)])\<rparr>, None)"
proof -
  have "storedEntries \<lparr>inputs = (\<lambda>playerNum count. None),
          buttons = (\<lambda>playerNum. [])(0 := [(2864434397, 2)])\<rparr> 0 100 = []"
    by (simp add: storedEntries_def storedEntry_def)
  then show ?thesis
    by (simp add: read_KeyInfoClient read_PlayerInputRequest sendInput_spectator emptyServer_def)
qed


end
